theory Spec2Isabelle
  imports Main "HOL-Library.Word"
begin

section \<open>Proposal transaction builders of spl-governance (\<^verbatim>\<open>src/utils.ts\<close>)\<close>

text \<open>
  \<^verbatim>\<open>utils.ts\<close> builds unsigned transactions for the SPL governance program: it fetches a
  realm, derives program addresses from seed lists, and hands method arguments and account
  lists to Anchor. The embedding keeps every call the builders make into their libraries
  as an explicit, fallible step, and records the calls with an effect in a log.
\<close>

subsection \<open>Bytes, keys, errors\<close>

type_synonym byte = "8 word"
type_synonym Buffer = "byte list"

text \<open>\<^verbatim>\<open>web3.PublicKey\<close>: a wrapper around its bytes, read by \<^verbatim>\<open>toBuffer()\<close>.\<close>

datatype PublicKey = PublicKey (toBuffer: Buffer)

text \<open>Anchor's \<^verbatim>\<open>Address = PublicKey | string\<close>; the string form is base58 text.\<close>

datatype Address = Key PublicKey | Base58 string

text \<open>
  A thrown JavaScript value: an \<^verbatim>\<open>Error\<close> with its message, or the \<^verbatim>\<open>TypeError\<close> of a
  property read on \<^verbatim>\<open>null\<close>.
\<close>

datatype error = Error string | TypeError string

text \<open>\<^verbatim>\<open>Buffer.from(s)\<close> for a string: its bytes.\<close>

definition Buffer_from :: "string \<Rightarrow> Buffer" where
  "Buffer_from s = map of_char s"

subsection \<open>The data the builders touch\<close>

text \<open>\<^verbatim>\<open>web3.AccountMeta\<close> and \<^verbatim>\<open>web3.TransactionInstruction\<close>, as the caller supplies them.\<close>

record AccountMeta =
  pubkey :: PublicKey
  isSigner :: bool
  isWritable :: bool

record TransactionInstruction =
  ix_programId :: PublicKey
  ix_keys :: "AccountMeta list"
  ix_data :: Buffer

text \<open>The object literal returned by \<^verbatim>\<open>getInstructionDataFromInstruction\<close>.\<close>

record InstructionData =
  programId :: PublicKey
  accounts :: "AccountMeta list"
  data :: Buffer

text \<open>
  The realm account as the builders read it: \<^verbatim>\<open>realm.communityMint\<close> and
  \<^verbatim>\<open>realm.config.councilMint\<close>, the latter \<^verbatim>\<open>null\<close> when the realm has no council.
\<close>

record RealmConfig =
  councilMint :: "PublicKey option"

record RealmV2 =
  communityMint :: PublicKey
  config :: RealmConfig

text \<open>
  A call on \<^verbatim>\<open>governanceProgram.methods\<close> with its arguments. The vote type is the object
  literal \<^verbatim>\<open>{ singleChoice: {} }\<close>, kept as the name of its only key.
\<close>

datatype method_call =
    createProposal string string string "string list" bool PublicKey
  | insertTransaction int int int "InstructionData list"
  | signOffProposal

text \<open>
  What \<^verbatim>\<open>.transaction()\<close> resolves to, kept by its content: the program it addresses, the
  method and arguments, the accounts by name with their addresses translated to keys, and
  the instruction bytes the coder made of the arguments.
\<close>

record Transaction =
  tx_programId :: PublicKey
  tx_method :: method_call
  tx_accounts :: "(string \<times> PublicKey) list"
  tx_data :: Buffer

subsection \<open>The program handle\<close>

datatype Idl = SPL_GOVERNANCE_IDL

text \<open>
  \<^verbatim>\<open>SplGovernanceCoder\<close> lives in \<^verbatim>\<open>./coder\<close>; here it is the function that encodes a method
  call, and it may reject the arguments.
\<close>

record Coder =
  instruction_encode :: "method_call \<Rightarrow> error + Buffer"

text \<open>
  The connection, as far as the builders use it: reading and decoding the realm account
  at a key, as Anchor's \<^verbatim>\<open>fetchNullable\<close> does. The read may fail; it yields \<open>None\<close> for an
  account that does not exist or has no data.
\<close>

record Connection =
  fetchNullable_realmV2 :: "PublicKey \<Rightarrow> error + RealmV2 option"

text \<open>The wallet; its signing operations are never called by the builders.\<close>

record AnchorWallet =
  publicKey :: PublicKey

record ConfirmOptions =
  commitment :: string
  preflightCommitment :: string
  skipPreflight :: bool

record AnchorProvider =
  connection :: Connection
  wallet :: AnchorWallet
  opts :: ConfirmOptions

record Program =
  idl :: Idl
  program_programId :: PublicKey
  provider :: AnchorProvider
  coder :: Coder

subsection \<open>Constants and library functions\<close>

text \<open>
  The constants of \<^verbatim>\<open>./constants\<close> and of web3, and the library functions whose results
  the builders only pass on: the address derivation, the parsing and the printing of a
  base58 key, the coder's constructor.
\<close>

record env =
  GOVERNANCE_PROGRAM_ID :: PublicKey
  GOVERNANCE_PROGRAM_SEED :: string
  SystemProgram_programId :: PublicKey
  SYSVAR_RENT_PUBKEY :: PublicKey
  findProgramAddressSync :: "Buffer list \<Rightarrow> PublicKey \<Rightarrow> error + (PublicKey \<times> nat)"
  PublicKey_of_string :: "string \<Rightarrow> error + PublicKey"
  PublicKey_toBase58 :: "PublicKey \<Rightarrow> string"
  SplGovernanceCoder :: "Idl \<Rightarrow> Coder"

text \<open>\<^verbatim>\<open>new web3.PublicKey(address)\<close>: a key is taken as it is, a string is parsed.\<close>

definition new_PublicKey :: "env \<Rightarrow> Address \<Rightarrow> error + PublicKey" where
  "new_PublicKey lib address =
     (case address of Key k \<Rightarrow> Inr k | Base58 s \<Rightarrow> PublicKey_of_string lib s)"

text \<open>\<^verbatim>\<open>address.toString()\<close>: a key prints as base58 text, a string is itself.\<close>

definition Address_toString :: "env \<Rightarrow> Address \<Rightarrow> string" where
  "Address_toString lib address =
     (case address of Key k \<Rightarrow> PublicKey_toBase58 lib k | Base58 s \<Rightarrow> s)"

subsection \<open>\<^verbatim>\<open>createSplGovernanceProgram\<close> and \<^verbatim>\<open>getInstructionDataFromInstruction\<close>\<close>

text \<open>The optional \<^verbatim>\<open>programId\<close> argument is \<open>None\<close> when the caller omits it.\<close>

definition createSplGovernanceProgram ::
  "env \<Rightarrow> AnchorWallet \<Rightarrow> Connection \<Rightarrow> PublicKey option \<Rightarrow> Program" where
  "createSplGovernanceProgram lib wallet_arg connection_arg programId_arg =
     (let programId' = (case programId_arg of None \<Rightarrow> GOVERNANCE_PROGRAM_ID lib | Some p \<Rightarrow> p);
          provider' = \<lparr>connection = connection_arg, wallet = wallet_arg,
                       opts = \<lparr>commitment = ''confirmed'',
                               preflightCommitment = ''confirmed'',
                               skipPreflight = False\<rparr>\<rparr>
      in \<lparr>idl = SPL_GOVERNANCE_IDL, program_programId = programId', provider = provider',
          coder = SplGovernanceCoder lib SPL_GOVERNANCE_IDL\<rparr>)"

definition getInstructionDataFromInstruction :: "TransactionInstruction \<Rightarrow> InstructionData" where
  "getInstructionDataFromInstruction instruction =
     \<lparr>programId = ix_programId instruction,
      accounts = ix_keys instruction,
      data = ix_data instruction\<rparr>"

subsection \<open>Effects\<close>

text \<open>
  A builder either returns a value or throws, and on the way it calls out: it reads an
  account, derives an address, or has Anchor build a transaction. A computation is the
  pair of its outcome and the calls it made, in order.
\<close>

datatype call =
    Fetch PublicKey
  | FindProgramAddress "Buffer list" PublicKey
  | BuildTransaction Transaction

type_synonym 'a io = "(error + 'a) \<times> call list"

definition ret :: "'a \<Rightarrow> 'a io" where
  "ret x = (Inr x, [])"

definition throw :: "error \<Rightarrow> 'a io" where
  "throw e = (Inl e, [])"

definition lift :: "error + 'a \<Rightarrow> 'a io" where
  "lift r = (r, [])"

definition emit :: "call \<Rightarrow> unit io" where
  "emit c = (Inr (), [c])"

text \<open>Sequencing: a throw ends the computation, with the calls made so far.\<close>

definition and_then :: "'a io \<Rightarrow> ('a \<Rightarrow> 'b io) \<Rightarrow> 'b io" where
  "and_then m f =
     (case m of
        (Inl e, l) \<Rightarrow> (Inl e, l)
      | (Inr x, l) \<Rightarrow> (case f x of (r, l') \<Rightarrow> (r, l @ l')))"

text \<open>
  \<^verbatim>\<open>Promise.all\<close> over promises that are all started: every one of them runs, and the
  result is the list of their values, or the first rejection.
\<close>

fun Promise_all :: "'a io list \<Rightarrow> 'a list io" where
  "Promise_all [] = ret []"
| "Promise_all (p # ps) =
     (case (p, Promise_all ps) of
        ((Inl e, l), (_, ls)) \<Rightarrow> (Inl e, l @ ls)
      | ((Inr x, l), (Inl e, ls)) \<Rightarrow> (Inl e, l @ ls)
      | ((Inr x, l), (Inr xs, ls)) \<Rightarrow> (Inr (x # xs), l @ ls))"

declare Promise_all.simps [simp del]

text \<open>Reading a property of a value that may be \<^verbatim>\<open>null\<close>.\<close>

definition nonnull :: "'a option \<Rightarrow> error + 'a" where
  "nonnull v =
     (case v of None \<Rightarrow> Inl (TypeError ''Cannot read properties of null'') | Some x \<Rightarrow> Inr x)"

subsection \<open>\<^verbatim>\<open>BN\<close>: fixed-width little-endian bytes\<close>

text \<open>
  bn.js keeps a sign and a magnitude. \<^verbatim>\<open>new BN(number)\<close> asserts that the number is below
  \<open>2^53\<close>. \<^verbatim>\<open>toArrayLike(Buffer, "le", length)\<close> writes the magnitude, least significant
  byte first, padded with zeros to \<^verbatim>\<open>length\<close>, and asserts that the magnitude fits.
\<close>

datatype BN = BN (negative: bool) (magnitude: nat)

definition new_BN :: "int \<Rightarrow> error + BN" where
  "new_BN number =
     (if \<bar>number\<bar> < 2 ^ 53 then Inr (BN (number < 0) (nat \<bar>number\<bar>))
      else Inl (Error ''Assertion failed''))"

fun byteLength :: "nat \<Rightarrow> nat" where
  "byteLength m = (if m = 0 then 0 else Suc (byteLength (m div 256)))"

declare byteLength.simps [simp del]

fun le_bytes :: "nat \<Rightarrow> nat \<Rightarrow> Buffer" where
  "le_bytes 0 m = []"
| "le_bytes (Suc k) m = of_nat (m mod 256) # le_bytes k (m div 256)"

definition toArrayLike_le :: "BN \<Rightarrow> nat \<Rightarrow> error + Buffer" where
  "toArrayLike_le b length_arg =
     (let byteLength' = byteLength (magnitude b);
          reqLength = (if length_arg = 0 then max 1 byteLength' else length_arg)
      in if \<not> byteLength' \<le> reqLength
           then Inl (Error ''byte array longer than desired length'')
         else if \<not> 0 < reqLength
           then Inl (Error ''Requested array length <= 0'')
         else Inr (le_bytes reqLength (magnitude b)))"

text \<open>\<^verbatim>\<open>new BN(number).toArrayLike(Buffer, "le", length)\<close>.\<close>

definition BN_toArrayLike_le :: "int \<Rightarrow> nat \<Rightarrow> error + Buffer" where
  "BN_toArrayLike_le number length_arg =
     (case new_BN number of Inl e \<Rightarrow> Inl e | Inr b \<Rightarrow> toArrayLike_le b length_arg)"

subsection \<open>Anchor: account fetch, address derivation, method builder\<close>

text \<open>
  \<^verbatim>\<open>governanceProgram.account.realmV2.fetch(address)\<close>: the address is translated to a key,
  then the account is read through the handle's connection. Anchor's \<^verbatim>\<open>fetch\<close> throws
  when the account does not exist or has no data; it never resolves to \<^verbatim>\<open>null\<close>. The
  result keeps the type of a value that a caller may test for \<^verbatim>\<open>null\<close>, as the builders
  do.
\<close>

definition account_realmV2_fetch :: "env \<Rightarrow> Program \<Rightarrow> Address \<Rightarrow> RealmV2 option io" where
  "account_realmV2_fetch lib program address =
     and_then (lift (new_PublicKey lib address)) (\<lambda>k.
     and_then (emit (Fetch k)) (\<lambda>_.
     and_then (lift (fetchNullable_realmV2 (connection (provider program)) k)) (\<lambda>data.
     case data of
       None \<Rightarrow>
         throw (Error (''Account does not exist or has no data '' @ Address_toString lib address))
     | Some account \<Rightarrow> ret (Some account))))"

text \<open>\<^verbatim>\<open>web3.PublicKey.findProgramAddressSync(seeds, programId)\<close>, recorded as a call.\<close>

definition PublicKey_findProgramAddressSync ::
  "env \<Rightarrow> Buffer list \<Rightarrow> PublicKey \<Rightarrow> (PublicKey \<times> nat) io" where
  "PublicKey_findProgramAddressSync lib seeds programId_arg =
     and_then (emit (FindProgramAddress seeds programId_arg)) (\<lambda>_.
     lift (findProgramAddressSync lib seeds programId_arg))"

text \<open>
  \<^verbatim>\<open>.accounts({...})\<close> takes addresses; building the instruction translates each to a key,
  in order, then encodes the arguments with the handle's coder.
\<close>

fun translate_accounts :: "env \<Rightarrow> (string \<times> Address) list \<Rightarrow> error + (string \<times> PublicKey) list" where
  "translate_accounts lib [] = Inr []"
| "translate_accounts lib ((name, address) # rest) =
     (case new_PublicKey lib address of
        Inl e \<Rightarrow> Inl e
      | Inr k \<Rightarrow>
          (case translate_accounts lib rest of
             Inl e \<Rightarrow> Inl e
           | Inr ks \<Rightarrow> Inr ((name, k) # ks)))"

declare translate_accounts.simps [simp del]

text \<open>\<^verbatim>\<open>governanceProgram.methods.m(args).accounts({...}).transaction()\<close>.\<close>

definition methods_transaction ::
  "env \<Rightarrow> Program \<Rightarrow> method_call \<Rightarrow> (string \<times> Address) list \<Rightarrow> Transaction io" where
  "methods_transaction lib program m accounts_arg =
     and_then (lift (translate_accounts lib accounts_arg)) (\<lambda>keys.
     and_then (lift (instruction_encode (coder program) m)) (\<lambda>bytes.
     (let t = \<lparr>tx_programId = program_programId program, tx_method = m,
               tx_accounts = keys, tx_data = bytes\<rparr>
      in and_then (emit (BuildTransaction t)) (\<lambda>_. ret t))))"

subsection \<open>\<^verbatim>\<open>createProposalTx\<close>\<close>

text \<open>
  The optional \<^verbatim>\<open>councilVote\<close> argument is \<open>None\<close> when the caller omits it. The fresh key
  \<^verbatim>\<open>new web3.Keypair().publicKey\<close> is random; the model takes the key that was drawn as
  its last argument. The returned object \<^verbatim>\<open>{tx, proposalAddress, proposalOwnerRecordKey}\<close>
  is the record \<open>CreateProposalResult\<close>.
\<close>

record CreateProposalResult =
  res_tx :: Transaction
  res_proposalAddress :: PublicKey
  res_proposalOwnerRecordKey :: PublicKey

definition createProposalTx ::
  "env \<Rightarrow> Program \<Rightarrow> Address \<Rightarrow> Address \<Rightarrow> string \<Rightarrow> bool option \<Rightarrow> PublicKey
   \<Rightarrow> CreateProposalResult io" where
  "createProposalTx lib governanceProgram realmKey governanceKey proposalName councilVote_arg
     proposalSeed =
   (let councilVote = (case councilVote_arg of None \<Rightarrow> False | Some b \<Rightarrow> b) in
    and_then (account_realmV2_fetch lib governanceProgram realmKey) (\<lambda>realm_opt.
    case realm_opt of
      None \<Rightarrow> throw (Error ''Could not fetch Realm V2 account'')
    | Some realm \<Rightarrow>
    (let governingTokenMint =
           (if councilVote then councilMint (config realm) else Some (communityMint realm));
         provider_publicKey = publicKey (wallet (provider governanceProgram)) in
     and_then (lift (new_PublicKey lib governanceKey)) (\<lambda>governancePk.
     and_then (lift (nonnull governingTokenMint)) (\<lambda>mint.
     and_then (PublicKey_findProgramAddressSync lib
        [Buffer_from (GOVERNANCE_PROGRAM_SEED lib), toBuffer governancePk, toBuffer mint,
         toBuffer proposalSeed]
        (GOVERNANCE_PROGRAM_ID lib)) (\<lambda>(proposalAddress, _).
     and_then (lift (new_PublicKey lib realmKey)) (\<lambda>realmPk.
     and_then (PublicKey_findProgramAddressSync lib
        [Buffer_from (GOVERNANCE_PROGRAM_SEED lib), toBuffer realmPk, toBuffer mint,
         toBuffer provider_publicKey]
        (GOVERNANCE_PROGRAM_ID lib)) (\<lambda>(proposalOwnerRecordKey, _).
     and_then (lift (new_PublicKey lib realmKey)) (\<lambda>realmPk'.
     and_then (PublicKey_findProgramAddressSync lib
        [Buffer_from ''realm-config'', toBuffer realmPk']
        (GOVERNANCE_PROGRAM_ID lib)) (\<lambda>(realmConfigAddress, _).
     and_then (PublicKey_findProgramAddressSync lib
        [toBuffer proposalAddress, toBuffer provider_publicKey]
        (GOVERNANCE_PROGRAM_ID lib)) (\<lambda>(proposalDepositAddress, _).
     and_then (methods_transaction lib governanceProgram
        (createProposal proposalName '''' ''singleChoice'' [''Approve''] True proposalSeed)
        [(''realm'', realmKey),
         (''proposalAddress'', Key proposalAddress),
         (''governance'', governanceKey),
         (''proposalOwnerRecord'', Key proposalOwnerRecordKey),
         (''governanceAuthority'', Key provider_publicKey),
         (''payer'', Key provider_publicKey),
         (''governingTokenMint'', Key mint),
         (''systemProgram'', Key (SystemProgram_programId lib)),
         (''realmConfigAddress'', Key realmConfigAddress),
         (''proposalDepositAddress'', Key proposalDepositAddress)]) (\<lambda>tx.
     ret \<lparr>res_tx = tx, res_proposalAddress = proposalAddress,
          res_proposalOwnerRecordKey = proposalOwnerRecordKey\<rparr>))))))))))))"

subsection \<open>\<^verbatim>\<open>insertTransactionTx\<close> and \<^verbatim>\<open>createProposalSignOffTx\<close>\<close>

text \<open>
  \<^verbatim>\<open>txIndex\<close> is a JavaScript number; the model takes the integers, negative ones
  included. The array of seeds is evaluated from left to right, so the proposal address is
  parsed before the two numbers are encoded.
\<close>

definition insertTransactionTx ::
  "env \<Rightarrow> Program \<Rightarrow> Address \<Rightarrow> Address \<Rightarrow> Address \<Rightarrow> int \<Rightarrow> TransactionInstruction list
   \<Rightarrow> Transaction io" where
  "insertTransactionTx lib governanceProgram governanceKey proposalAddress
     proposalOwnerRecordKey txIndex instructions =
   (let optionIndex = 0;
        holdupTime = 0;
        ixDataVec = map (\<lambda>ix. getInstructionDataFromInstruction ix) instructions;
        provider_publicKey = publicKey (wallet (provider governanceProgram)) in
    and_then (lift (new_PublicKey lib proposalAddress)) (\<lambda>proposalPk.
    and_then (lift (BN_toArrayLike_le optionIndex 1)) (\<lambda>optionIndexBytes.
    and_then (lift (BN_toArrayLike_le txIndex 2)) (\<lambda>txIndexBytes.
    and_then (PublicKey_findProgramAddressSync lib
       [Buffer_from (GOVERNANCE_PROGRAM_SEED lib), toBuffer proposalPk, optionIndexBytes,
        txIndexBytes]
       (GOVERNANCE_PROGRAM_ID lib)) (\<lambda>(proposalTransactionAddress, _).
    methods_transaction lib governanceProgram
       (insertTransaction optionIndex txIndex holdupTime ixDataVec)
       [(''governance'', governanceKey),
        (''proposal'', proposalAddress),
        (''tokenOwnerRecord'', proposalOwnerRecordKey),
        (''governanceAuthority'', Key provider_publicKey),
        (''proposalTransactionAddress'', Key proposalTransactionAddress),
        (''payer'', Key provider_publicKey),
        (''systemProgram'', Key (SystemProgram_programId lib)),
        (''rent'', Key (SYSVAR_RENT_PUBKEY lib))])))))"

definition createProposalSignOffTx ::
  "env \<Rightarrow> Program \<Rightarrow> Address \<Rightarrow> Address \<Rightarrow> Address \<Rightarrow> Address \<Rightarrow> Transaction io" where
  "createProposalSignOffTx lib governanceProgram realmKey governanceKey proposalOwnerRecordKey
     proposalAddress =
   methods_transaction lib governanceProgram signOffProposal
     [(''realm'', realmKey),
      (''governance'', governanceKey),
      (''proposal'', proposalAddress),
      (''signatory'', Key (publicKey (wallet (provider governanceProgram)))),
      (''proposalOwnerRecord'', proposalOwnerRecordKey)]"

subsection \<open>\<^verbatim>\<open>createProposalWithInstructionsTransactions\<close>\<close>

definition createProposalWithInstructionsTransactions ::
  "env \<Rightarrow> Program \<Rightarrow> Address \<Rightarrow> Address \<Rightarrow> string \<Rightarrow> TransactionInstruction list
   \<Rightarrow> bool option \<Rightarrow> PublicKey \<Rightarrow> Transaction list io" where
  "createProposalWithInstructionsTransactions lib governanceProgram realmKey governanceKey
     proposalName instructions councilVote_arg proposalSeed =
   (let councilVote = (case councilVote_arg of None \<Rightarrow> False | Some b \<Rightarrow> b) in
    and_then (account_realmV2_fetch lib governanceProgram realmKey) (\<lambda>realm_opt.
    case realm_opt of
      None \<Rightarrow> throw (Error ''Could not fetch Realm V2 account'')
    | Some realm \<Rightarrow>
    (let governingTokenMint =
           (if councilVote then councilMint (config realm) else Some (communityMint realm));
         provider_publicKey = publicKey (wallet (provider governanceProgram)) in
     and_then (lift (new_PublicKey lib governanceKey)) (\<lambda>governancePk.
     and_then (lift (nonnull governingTokenMint)) (\<lambda>mint.
     and_then (PublicKey_findProgramAddressSync lib
        [Buffer_from (GOVERNANCE_PROGRAM_SEED lib), toBuffer governancePk, toBuffer mint,
         toBuffer proposalSeed]
        (GOVERNANCE_PROGRAM_ID lib)) (\<lambda>(proposalAddress, _).
     and_then (lift (new_PublicKey lib realmKey)) (\<lambda>realmPk.
     and_then (PublicKey_findProgramAddressSync lib
        [Buffer_from (GOVERNANCE_PROGRAM_SEED lib), toBuffer realmPk, toBuffer mint,
         toBuffer provider_publicKey]
        (GOVERNANCE_PROGRAM_ID lib)) (\<lambda>(proposalOwnerRecordKey, _).
     and_then (lift (new_PublicKey lib realmKey)) (\<lambda>realmPk'.
     and_then (PublicKey_findProgramAddressSync lib
        [Buffer_from ''realm-config'', toBuffer realmPk']
        (GOVERNANCE_PROGRAM_ID lib)) (\<lambda>(realmConfigAddress, _).
     and_then (PublicKey_findProgramAddressSync lib
        [toBuffer proposalAddress, toBuffer provider_publicKey]
        (GOVERNANCE_PROGRAM_ID lib)) (\<lambda>(proposalDepositAddress, _).
     (let optionIndex = 0;
          holdupTime = 0;
          txIndex = 0;
          ixDataVec = map (\<lambda>ix. getInstructionDataFromInstruction ix) instructions in
     and_then (lift (BN_toArrayLike_le optionIndex 1)) (\<lambda>optionIndexBytes.
     and_then (lift (BN_toArrayLike_le txIndex 2)) (\<lambda>txIndexBytes.
     and_then (PublicKey_findProgramAddressSync lib
        [Buffer_from (GOVERNANCE_PROGRAM_SEED lib), toBuffer proposalAddress, optionIndexBytes,
         txIndexBytes]
        (GOVERNANCE_PROGRAM_ID lib)) (\<lambda>(proposalTransactionAddress, _).
     Promise_all
       [methods_transaction lib governanceProgram
          (createProposal proposalName '''' ''singleChoice'' [''Approve''] True proposalSeed)
          [(''realm'', realmKey),
           (''proposalAddress'', Key proposalAddress),
           (''governance'', governanceKey),
           (''proposalOwnerRecord'', Key proposalOwnerRecordKey),
           (''governanceAuthority'', Key provider_publicKey),
           (''payer'', Key provider_publicKey),
           (''governingTokenMint'', Key mint),
           (''systemProgram'', Key (SystemProgram_programId lib)),
           (''realmConfigAddress'', Key realmConfigAddress),
           (''proposalDepositAddress'', Key proposalDepositAddress)],
        methods_transaction lib governanceProgram
          (insertTransaction optionIndex txIndex holdupTime ixDataVec)
          [(''governance'', governanceKey),
           (''proposal'', Key proposalAddress),
           (''tokenOwnerRecord'', Key proposalOwnerRecordKey),
           (''governanceAuthority'', Key provider_publicKey),
           (''proposalTransactionAddress'', Key proposalTransactionAddress),
           (''payer'', Key provider_publicKey),
           (''systemProgram'', Key (SystemProgram_programId lib)),
           (''rent'', Key (SYSVAR_RENT_PUBKEY lib))],
        methods_transaction lib governanceProgram signOffProposal
          [(''realm'', realmKey),
           (''governance'', governanceKey),
           (''proposal'', Key proposalAddress),
           (''signatory'', Key provider_publicKey),
           (''proposalOwnerRecord'', Key proposalOwnerRecordKey)]])))))))))))))))"

subsection \<open>Reading the log\<close>

text \<open>The address derivations of a log, each with its seeds and owning program, in order.\<close>

fun derivations :: "call list \<Rightarrow> (Buffer list \<times> PublicKey) list" where
  "derivations [] = []"
| "derivations (FindProgramAddress seeds pid # cs) = (seeds, pid) # derivations cs"
| "derivations (Fetch k # cs) = derivations cs"
| "derivations (BuildTransaction t # cs) = derivations cs"

text \<open>The transactions a log saw built, in order.\<close>

fun transactions_built :: "call list \<Rightarrow> Transaction list" where
  "transactions_built [] = []"
| "transactions_built (BuildTransaction t # cs) = t # transactions_built cs"
| "transactions_built (Fetch k # cs) = transactions_built cs"
| "transactions_built (FindProgramAddress seeds pid # cs) = transactions_built cs"

text \<open>Every derivation of a log is made under the given program key.\<close>

definition derives_only_under :: "PublicKey \<Rightarrow> call list \<Rightarrow> bool" where
  "derives_only_under pid l = list_all (\<lambda>d. snd d = pid) (derivations l)"

text \<open>The address a transaction names for an account.\<close>

definition account_of :: "Transaction \<Rightarrow> string \<Rightarrow> PublicKey option" where
  "account_of t name = map_of (tx_accounts t) name"

subsection \<open>The seed compositions, as the specification words them\<close>

text \<open>
  Section 4.2 of the specification lists one seed composition per address kind. They are
  written down here from its words, to be compared with what the builders pass to the
  derivation.
\<close>

definition spec_proposal_seeds :: "env \<Rightarrow> PublicKey \<Rightarrow> PublicKey \<Rightarrow> PublicKey \<Rightarrow> Buffer list" where
  "spec_proposal_seeds lib governance mint seed =
     [Buffer_from (GOVERNANCE_PROGRAM_SEED lib), toBuffer governance, toBuffer mint,
      toBuffer seed]"

definition spec_owner_record_seeds :: "env \<Rightarrow> PublicKey \<Rightarrow> PublicKey \<Rightarrow> PublicKey \<Rightarrow> Buffer list" where
  "spec_owner_record_seeds lib realm mint caller =
     [Buffer_from (GOVERNANCE_PROGRAM_SEED lib), toBuffer realm, toBuffer mint,
      toBuffer caller]"

definition spec_realm_config_seeds :: "PublicKey \<Rightarrow> Buffer list" where
  "spec_realm_config_seeds realm = [Buffer_from ''realm-config'', toBuffer realm]"

definition spec_deposit_seeds :: "PublicKey \<Rightarrow> PublicKey \<Rightarrow> Buffer list" where
  "spec_deposit_seeds proposal caller = [toBuffer proposal, toBuffer caller]"

text \<open>A number as one byte, and as two bytes with the low byte first.\<close>

definition le1 :: "nat \<Rightarrow> Buffer" where
  "le1 n = [of_nat (n mod 256)]"

definition le2 :: "nat \<Rightarrow> Buffer" where
  "le2 n = [of_nat (n mod 256), of_nat (n div 256 mod 256)]"

definition spec_proposal_transaction_seeds :: "env \<Rightarrow> PublicKey \<Rightarrow> nat \<Rightarrow> nat \<Rightarrow> Buffer list" where
  "spec_proposal_transaction_seeds lib proposal optionIndex txIndex =
     [Buffer_from (GOVERNANCE_PROGRAM_SEED lib), toBuffer proposal, le1 optionIndex,
      le2 txIndex]"

text \<open>The governing token mint, as the specification words the choice.\<close>

definition spec_governingTokenMint :: "bool option \<Rightarrow> RealmV2 \<Rightarrow> PublicKey option" where
  "spec_governingTokenMint councilVote_arg realm =
     (case councilVote_arg of
        Some True \<Rightarrow> councilMint (config realm)
      | Some False \<Rightarrow> Some (communityMint realm)
      | None \<Rightarrow> Some (communityMint realm))"

subsection \<open>A small concrete setting\<close>

text \<open>
  Concrete values on which the builders can be run: short keys, a derivation that
  joins its seeds and the program key, a key parser that accepts two-character strings, a
  key printer that writes one letter per byte, a coder that accepts a transaction index of
  16 bits, and a connection that holds one realm.
\<close>

definition demo_coder :: Coder where
  "demo_coder =
     \<lparr>instruction_encode = (\<lambda>m. case m of
          createProposal n d v os dn s \<Rightarrow> Inr [1]
        | insertTransaction oi ti h vec \<Rightarrow>
            (if 0 \<le> ti \<and> ti < 65536 then Inr [2] else Inl (Error ''value out of range''))
        | signOffProposal \<Rightarrow> Inr [3])\<rparr>"

definition demo_lib :: env where
  "demo_lib =
     \<lparr>GOVERNANCE_PROGRAM_ID = PublicKey [7],
      GOVERNANCE_PROGRAM_SEED = ''governance'',
      SystemProgram_programId = PublicKey [0],
      SYSVAR_RENT_PUBKEY = PublicKey [6],
      findProgramAddressSync = (\<lambda>seeds pid. Inr (PublicKey (concat seeds @ toBuffer pid), 255)),
      PublicKey_of_string = (\<lambda>s. if length s = 2 then Inr (PublicKey (map of_char s))
                                  else Inl (Error ''Invalid public key input'')),
      PublicKey_toBase58 = (\<lambda>k. map (\<lambda>b. CHR ''k'') (toBuffer k)),
      SplGovernanceCoder = (\<lambda>i. demo_coder)\<rparr>"

definition demo_realm :: RealmV2 where
  "demo_realm =
     \<lparr>communityMint = PublicKey [10], config = \<lparr>councilMint = Some (PublicKey [11])\<rparr>\<rparr>"

definition demo_connection :: Connection where
  "demo_connection =
     \<lparr>fetchNullable_realmV2 =
        (\<lambda>k. if k = PublicKey [1] then Inr (Some demo_realm) else Inr None)\<rparr>"

definition demo_wallet :: AnchorWallet where
  "demo_wallet = \<lparr>publicKey = PublicKey [9]\<rparr>"

definition demo_program :: Program where
  "demo_program = createSplGovernanceProgram demo_lib demo_wallet demo_connection None"

definition demo_instruction :: TransactionInstruction where
  "demo_instruction =
     \<lparr>ix_programId = PublicKey [30],
      ix_keys = [\<lparr>pubkey = PublicKey [31], isSigner = False, isWritable = True\<rparr>],
      ix_data = [1, 2, 3]\<rparr>"

definition demo_instruction' :: TransactionInstruction where
  "demo_instruction' =
     \<lparr>ix_programId = PublicKey [40],
      ix_keys = [\<lparr>pubkey = PublicKey [41], isSigner = True, isWritable = False\<rparr>,
                 \<lparr>pubkey = PublicKey [42], isSigner = False, isWritable = False\<rparr>],
      ix_data = [9]\<rparr>"

section \<open>Lemmas about the embedding\<close>

subsection \<open>Unfolding the effects\<close>

lemma and_then_pair:
  "and_then (r, l) f = (case r of Inl e \<Rightarrow> (Inl e, l) | Inr x \<Rightarrow> (fst (f x), l @ snd (f x)))"
  by (simp add: and_then_def split: sum.splits prod.splits)

lemma and_then_lift:
  "and_then (lift r) f = (case r of Inl e \<Rightarrow> (Inl e, []) | Inr x \<Rightarrow> f x)"
  by (simp add: and_then_def lift_def split: sum.splits prod.splits)

lemma and_then_emit:
  "and_then (emit c) f = (fst (f ()), c # snd (f ()))"
  by (simp add: and_then_def emit_def split: sum.splits prod.splits)

lemma and_then_Inr_iff:
  "and_then m f = (Inr y, l) \<longleftrightarrow>
     (\<exists>x l1 l2. m = (Inr x, l1) \<and> f x = (Inr y, l2) \<and> l = l1 @ l2)"
  by (cases m) (auto simp: and_then_def split: sum.splits prod.splits)

lemma find_unfold:
  "PublicKey_findProgramAddressSync lib seeds pid =
     (findProgramAddressSync lib seeds pid, [FindProgramAddress seeds pid])"
  by (simp add: PublicKey_findProgramAddressSync_def and_then_emit lift_def)

lemma methods_transaction_unfold:
  "methods_transaction lib program m accs =
     (case translate_accounts lib accs of
        Inl e \<Rightarrow> (Inl e, [])
      | Inr keys \<Rightarrow>
          (case instruction_encode (coder program) m of
             Inl e \<Rightarrow> (Inl e, [])
           | Inr bytes \<Rightarrow>
               (Inr \<lparr>tx_programId = program_programId program, tx_method = m,
                     tx_accounts = keys, tx_data = bytes\<rparr>,
                [BuildTransaction \<lparr>tx_programId = program_programId program, tx_method = m,
                     tx_accounts = keys, tx_data = bytes\<rparr>])))"
  by (simp add: methods_transaction_def and_then_lift and_then_emit ret_def Let_def
           split: sum.splits)

lemma fetch_unfold:
  "account_realmV2_fetch lib program address =
     (case new_PublicKey lib address of
        Inl e \<Rightarrow> (Inl e, [])
      | Inr k \<Rightarrow>
          (case fetchNullable_realmV2 (connection (provider program)) k of
             Inl e \<Rightarrow> (Inl e, [Fetch k])
           | Inr None \<Rightarrow>
               (Inl (Error (''Account does not exist or has no data ''
                       @ Address_toString lib address)), [Fetch k])
           | Inr (Some account) \<Rightarrow> (Inr (Some account), [Fetch k])))"
  by (simp add: account_realmV2_fetch_def and_then_lift and_then_emit lift_def and_then_pair
        throw_def ret_def
      split: sum.splits option.splits)

lemma byteLength_le_iff: "byteLength m \<le> k \<longleftrightarrow> m < 256 ^ k"
proof (induction k arbitrary: m)
  case 0
  show ?case by (subst byteLength.simps) simp
next
  case (Suc k)
  have "m div 256 < 256 ^ k \<longleftrightarrow> m < 256 ^ Suc k"
    by (simp add: less_mult_imp_div_less div_less_iff_less_mult mult.commute)
  with Suc show ?case by (subst byteLength.simps) auto
qed

lemma BN_toArrayLike_le_2:
  "BN_toArrayLike_le n 2 =
     (if \<not> \<bar>n\<bar> < 2 ^ 53 then Inl (Error ''Assertion failed'')
      else if \<not> \<bar>n\<bar> < 65536 then Inl (Error ''byte array longer than desired length'')
      else Inr (le2 (nat \<bar>n\<bar>)))"
  using byteLength_le_iff [of "nat \<bar>n\<bar>" 2]
  by (auto simp: BN_toArrayLike_le_def new_BN_def toArrayLike_le_def Let_def le2_def
        numeral_2_eq_2)

lemma BN_toArrayLike_le_0_1: "BN_toArrayLike_le 0 (Suc 0) = Inr (le1 0)"
  by (simp add: BN_toArrayLike_le_def new_BN_def toArrayLike_le_def Let_def le1_def
        byteLength.simps)

lemma BN_toArrayLike_le_0_2: "BN_toArrayLike_le 0 2 = Inr (le2 0)"
  by (simp add: BN_toArrayLike_le_2)

lemma Promise_all_3_Inr_iff:
  "Promise_all [a, b, c] = (Inr txs, l) \<longleftrightarrow>
     (\<exists>t1 l1 t2 l2 t3 l3. a = (Inr t1, l1) \<and> b = (Inr t2, l2) \<and> c = (Inr t3, l3)
        \<and> txs = [t1, t2, t3] \<and> l = l1 @ l2 @ l3)"
  by (cases a; cases b; cases c) (auto simp: Promise_all.simps ret_def split: sum.splits)

lemma lift_Inr_iff: "lift r = (Inr x, l) \<longleftrightarrow> r = Inr x \<and> l = []"
  by (auto simp: lift_def)

lemma ret_Inr_iff: "ret v = (Inr x, l) \<longleftrightarrow> x = v \<and> l = []"
  by (auto simp: ret_def)

lemma throw_Inr_iff: "throw e = (Inr x, l) \<longleftrightarrow> False"
  by (simp add: throw_def)

lemma find_Inr_iff:
  "PublicKey_findProgramAddressSync lib seeds pid = (Inr x, l) \<longleftrightarrow>
     findProgramAddressSync lib seeds pid = Inr x \<and> l = [FindProgramAddress seeds pid]"
  by (auto simp: find_unfold)

lemma fetch_Inr_iff:
  "account_realmV2_fetch lib program address = (Inr x, l) \<longleftrightarrow>
     (\<exists>k account. new_PublicKey lib address = Inr k
        \<and> fetchNullable_realmV2 (connection (provider program)) k = Inr (Some account)
        \<and> x = Some account \<and> l = [Fetch k])"
  by (auto simp: fetch_unfold split: sum.splits option.splits)

lemma fetch_never_null: "fst (account_realmV2_fetch lib program address) \<noteq> Inr None"
  by (simp add: fetch_unfold split: sum.splits option.splits)

lemma methods_transaction_Inr_iff:
  "methods_transaction lib program m accs = (Inr t, l) \<longleftrightarrow>
     (\<exists>keys bytes. translate_accounts lib accs = Inr keys
        \<and> instruction_encode (coder program) m = Inr bytes
        \<and> t = \<lparr>tx_programId = program_programId program, tx_method = m,
                tx_accounts = keys, tx_data = bytes\<rparr>
        \<and> l = [BuildTransaction t])"
  by (auto simp: methods_transaction_unfold split: sum.splits)

lemma translate_accounts_Cons_Inr_iff:
  "translate_accounts lib ((name, address) # rest) = Inr ks \<longleftrightarrow>
     (\<exists>k ks'. new_PublicKey lib address = Inr k \<and> translate_accounts lib rest = Inr ks'
        \<and> ks = (name, k) # ks')"
  by (auto simp: translate_accounts.simps split: sum.splits)

lemma translate_accounts_Nil_Inr_iff: "translate_accounts lib [] = Inr ks \<longleftrightarrow> ks = []"
  by (auto simp: translate_accounts.simps)

lemma new_PublicKey_Key: "new_PublicKey lib (Key k) = Inr k"
  by (simp add: new_PublicKey_def)

lemma nonnull_Inr_iff: "nonnull v = Inr x \<longleftrightarrow> v = Some x"
  by (auto simp: nonnull_def split: option.splits)

lemmas Inr_iffs = and_then_Inr_iff lift_Inr_iff ret_Inr_iff throw_Inr_iff find_Inr_iff
  fetch_Inr_iff methods_transaction_Inr_iff translate_accounts_Cons_Inr_iff
  translate_accounts_Nil_Inr_iff nonnull_Inr_iff

lemma and_then_Inr: "and_then (Inr x, l) f = (case f x of (r, l') \<Rightarrow> (r, l @ l'))"
  by (simp add: and_then_def)

lemma and_then_Inl: "and_then (Inl e, l) f = (Inl e, l)"
  by (simp add: and_then_def)

lemma mint_choice:
  "(if (case councilVote_arg of None \<Rightarrow> False | Some b \<Rightarrow> b)
    then councilMint (config realm) else Some (communityMint realm))
   = spec_governingTokenMint councilVote_arg realm"
  by (simp add: spec_governingTokenMint_def split: option.splits bool.splits)

lemmas spec_seeds_defs = spec_proposal_seeds_def spec_owner_record_seeds_def
  spec_realm_config_seeds_def spec_deposit_seeds_def spec_proposal_transaction_seeds_def

lemmas run_simps = and_then_Inr and_then_Inl and_then_lift find_unfold
  methods_transaction_unfold fetch_unfold ret_def throw_def nonnull_def
  translate_accounts.simps

lemma fst_Inr_iff: "fst m = Inr x \<longleftrightarrow> (\<exists>l. m = (Inr x, l))"
  by (cases m) auto

subsection \<open>When the builders return\<close>

text \<open>
  Each builder returns exactly when every library call it makes returns, and then its
  result and its log are determined by what those calls returned.
\<close>

lemma createProposalSignOffTx_Inr_iff:
  "createProposalSignOffTx lib gp realmKey governanceKey owner proposal = (Inr t, l) \<longleftrightarrow>
     (\<exists>realmPk governancePk proposalPk ownerPk bytes.
        new_PublicKey lib realmKey = Inr realmPk
      \<and> new_PublicKey lib governanceKey = Inr governancePk
      \<and> new_PublicKey lib proposal = Inr proposalPk
      \<and> new_PublicKey lib owner = Inr ownerPk
      \<and> instruction_encode (coder gp) signOffProposal = Inr bytes
      \<and> t = \<lparr>tx_programId = program_programId gp, tx_method = signOffProposal,
              tx_accounts = [(''realm'', realmPk), (''governance'', governancePk),
                (''proposal'', proposalPk),
                (''signatory'', publicKey (wallet (provider gp))),
                (''proposalOwnerRecord'', ownerPk)],
              tx_data = bytes\<rparr>
      \<and> l = [BuildTransaction t])"
  unfolding createProposalSignOffTx_def
  by (auto simp: Inr_iffs new_PublicKey_Key)

lemma insertTransactionTx_Inr_iff:
  "insertTransactionTx lib gp governanceKey proposal owner txIndex instructions = (Inr t, l)
   \<longleftrightarrow>
     (\<exists>proposalPk governancePk ownerPk address bump bytes.
        new_PublicKey lib proposal = Inr proposalPk
      \<and> \<bar>txIndex\<bar> < 65536
      \<and> findProgramAddressSync lib
           (spec_proposal_transaction_seeds lib proposalPk 0 (nat \<bar>txIndex\<bar>))
           (GOVERNANCE_PROGRAM_ID lib) = Inr (address, bump)
      \<and> new_PublicKey lib governanceKey = Inr governancePk
      \<and> new_PublicKey lib owner = Inr ownerPk
      \<and> instruction_encode (coder gp)
           (insertTransaction 0 txIndex 0 (map getInstructionDataFromInstruction instructions))
           = Inr bytes
      \<and> t = \<lparr>tx_programId = program_programId gp,
              tx_method = insertTransaction 0 txIndex 0
                (map getInstructionDataFromInstruction instructions),
              tx_accounts = [(''governance'', governancePk), (''proposal'', proposalPk),
                (''tokenOwnerRecord'', ownerPk),
                (''governanceAuthority'', publicKey (wallet (provider gp))),
                (''proposalTransactionAddress'', address),
                (''payer'', publicKey (wallet (provider gp))),
                (''systemProgram'', SystemProgram_programId lib),
                (''rent'', SYSVAR_RENT_PUBKEY lib)],
              tx_data = bytes\<rparr>
      \<and> l = [FindProgramAddress
                (spec_proposal_transaction_seeds lib proposalPk 0 (nat \<bar>txIndex\<bar>))
                (GOVERNANCE_PROGRAM_ID lib),
              BuildTransaction t])"
  unfolding insertTransactionTx_def Let_def
  by (auto simp: Inr_iffs new_PublicKey_Key BN_toArrayLike_le_0_1 BN_toArrayLike_le_2
        spec_proposal_transaction_seeds_def
      split: prod.splits if_splits)

lemma createProposalTx_Inr_iff:
  "createProposalTx lib gp realmKey governanceKey proposalName councilVote_arg proposalSeed
     = (Inr r, l)
   \<longleftrightarrow>
     (\<exists>realmPk realm governancePk mint pa b1 po b2 rc b3 pd b4 bytes t.
        new_PublicKey lib realmKey = Inr realmPk
      \<and> fetchNullable_realmV2 (connection (provider gp)) realmPk = Inr (Some realm)
      \<and> new_PublicKey lib governanceKey = Inr governancePk
      \<and> spec_governingTokenMint councilVote_arg realm = Some mint
      \<and> findProgramAddressSync lib (spec_proposal_seeds lib governancePk mint proposalSeed)
           (GOVERNANCE_PROGRAM_ID lib) = Inr (pa, b1)
      \<and> findProgramAddressSync lib
           (spec_owner_record_seeds lib realmPk mint (publicKey (wallet (provider gp))))
           (GOVERNANCE_PROGRAM_ID lib) = Inr (po, b2)
      \<and> findProgramAddressSync lib (spec_realm_config_seeds realmPk)
           (GOVERNANCE_PROGRAM_ID lib) = Inr (rc, b3)
      \<and> findProgramAddressSync lib (spec_deposit_seeds pa (publicKey (wallet (provider gp))))
           (GOVERNANCE_PROGRAM_ID lib) = Inr (pd, b4)
      \<and> instruction_encode (coder gp)
           (createProposal proposalName '''' ''singleChoice'' [''Approve''] True proposalSeed)
           = Inr bytes
      \<and> t = \<lparr>tx_programId = program_programId gp,
              tx_method =
                createProposal proposalName '''' ''singleChoice'' [''Approve''] True proposalSeed,
              tx_accounts = [(''realm'', realmPk), (''proposalAddress'', pa),
                (''governance'', governancePk), (''proposalOwnerRecord'', po),
                (''governanceAuthority'', publicKey (wallet (provider gp))),
                (''payer'', publicKey (wallet (provider gp))),
                (''governingTokenMint'', mint),
                (''systemProgram'', SystemProgram_programId lib),
                (''realmConfigAddress'', rc), (''proposalDepositAddress'', pd)],
              tx_data = bytes\<rparr>
      \<and> r = \<lparr>res_tx = t, res_proposalAddress = pa, res_proposalOwnerRecordKey = po\<rparr>
      \<and> l = [Fetch realmPk,
              FindProgramAddress (spec_proposal_seeds lib governancePk mint proposalSeed)
                (GOVERNANCE_PROGRAM_ID lib),
              FindProgramAddress
                (spec_owner_record_seeds lib realmPk mint (publicKey (wallet (provider gp))))
                (GOVERNANCE_PROGRAM_ID lib),
              FindProgramAddress (spec_realm_config_seeds realmPk) (GOVERNANCE_PROGRAM_ID lib),
              FindProgramAddress (spec_deposit_seeds pa (publicKey (wallet (provider gp))))
                (GOVERNANCE_PROGRAM_ID lib),
              BuildTransaction t])"
  (is "?lhs \<longleftrightarrow> ?rhs")
proof
  assume ?lhs
  then show ?rhs
    unfolding createProposalTx_def Let_def mint_choice
    by (clarsimp simp: Inr_iffs new_PublicKey_Key spec_seeds_defs
        split: option.splits prod.splits)
next
  assume ?rhs
  then show ?lhs
    unfolding createProposalTx_def Let_def mint_choice
    by (clarsimp simp: run_simps new_PublicKey_Key spec_seeds_defs)
qed

lemma createProposalWithInstructionsTransactions_Inr_iff:
  "createProposalWithInstructionsTransactions lib gp realmKey governanceKey proposalName
     instructions councilVote_arg proposalSeed = (Inr txs, l)
   \<longleftrightarrow>
     (\<exists>realmPk realm governancePk mint pa b1 po b2 rc b3 pd b4 pt b5 bytes1 bytes2 bytes3
         t1 t2 t3.
        new_PublicKey lib realmKey = Inr realmPk
      \<and> fetchNullable_realmV2 (connection (provider gp)) realmPk = Inr (Some realm)
      \<and> new_PublicKey lib governanceKey = Inr governancePk
      \<and> spec_governingTokenMint councilVote_arg realm = Some mint
      \<and> findProgramAddressSync lib (spec_proposal_seeds lib governancePk mint proposalSeed)
           (GOVERNANCE_PROGRAM_ID lib) = Inr (pa, b1)
      \<and> findProgramAddressSync lib
           (spec_owner_record_seeds lib realmPk mint (publicKey (wallet (provider gp))))
           (GOVERNANCE_PROGRAM_ID lib) = Inr (po, b2)
      \<and> findProgramAddressSync lib (spec_realm_config_seeds realmPk)
           (GOVERNANCE_PROGRAM_ID lib) = Inr (rc, b3)
      \<and> findProgramAddressSync lib (spec_deposit_seeds pa (publicKey (wallet (provider gp))))
           (GOVERNANCE_PROGRAM_ID lib) = Inr (pd, b4)
      \<and> findProgramAddressSync lib (spec_proposal_transaction_seeds lib pa 0 0)
           (GOVERNANCE_PROGRAM_ID lib) = Inr (pt, b5)
      \<and> instruction_encode (coder gp)
           (createProposal proposalName '''' ''singleChoice'' [''Approve''] True proposalSeed)
           = Inr bytes1
      \<and> instruction_encode (coder gp)
           (insertTransaction 0 0 0 (map getInstructionDataFromInstruction instructions))
           = Inr bytes2
      \<and> instruction_encode (coder gp) signOffProposal = Inr bytes3
      \<and> t1 = \<lparr>tx_programId = program_programId gp,
              tx_method =
                createProposal proposalName '''' ''singleChoice'' [''Approve''] True proposalSeed,
              tx_accounts = [(''realm'', realmPk), (''proposalAddress'', pa),
                (''governance'', governancePk), (''proposalOwnerRecord'', po),
                (''governanceAuthority'', publicKey (wallet (provider gp))),
                (''payer'', publicKey (wallet (provider gp))),
                (''governingTokenMint'', mint),
                (''systemProgram'', SystemProgram_programId lib),
                (''realmConfigAddress'', rc), (''proposalDepositAddress'', pd)],
              tx_data = bytes1\<rparr>
      \<and> t2 = \<lparr>tx_programId = program_programId gp,
              tx_method = insertTransaction 0 0 0
                (map getInstructionDataFromInstruction instructions),
              tx_accounts = [(''governance'', governancePk), (''proposal'', pa),
                (''tokenOwnerRecord'', po),
                (''governanceAuthority'', publicKey (wallet (provider gp))),
                (''proposalTransactionAddress'', pt),
                (''payer'', publicKey (wallet (provider gp))),
                (''systemProgram'', SystemProgram_programId lib),
                (''rent'', SYSVAR_RENT_PUBKEY lib)],
              tx_data = bytes2\<rparr>
      \<and> t3 = \<lparr>tx_programId = program_programId gp, tx_method = signOffProposal,
              tx_accounts = [(''realm'', realmPk), (''governance'', governancePk),
                (''proposal'', pa),
                (''signatory'', publicKey (wallet (provider gp))),
                (''proposalOwnerRecord'', po)],
              tx_data = bytes3\<rparr>
      \<and> txs = [t1, t2, t3]
      \<and> l = [Fetch realmPk,
              FindProgramAddress (spec_proposal_seeds lib governancePk mint proposalSeed)
                (GOVERNANCE_PROGRAM_ID lib),
              FindProgramAddress
                (spec_owner_record_seeds lib realmPk mint (publicKey (wallet (provider gp))))
                (GOVERNANCE_PROGRAM_ID lib),
              FindProgramAddress (spec_realm_config_seeds realmPk) (GOVERNANCE_PROGRAM_ID lib),
              FindProgramAddress (spec_deposit_seeds pa (publicKey (wallet (provider gp))))
                (GOVERNANCE_PROGRAM_ID lib),
              FindProgramAddress (spec_proposal_transaction_seeds lib pa 0 0)
                (GOVERNANCE_PROGRAM_ID lib),
              BuildTransaction t1, BuildTransaction t2, BuildTransaction t3])"
  (is "?lhs \<longleftrightarrow> ?rhs")
proof
  assume ?lhs
  then show ?rhs
    unfolding createProposalWithInstructionsTransactions_def Let_def mint_choice
    by (clarsimp simp: Inr_iffs new_PublicKey_Key spec_seeds_defs Promise_all_3_Inr_iff
          BN_toArrayLike_le_0_1 BN_toArrayLike_le_0_2
        split: option.splits prod.splits)
next
  assume ?rhs
  then show ?lhs
    unfolding createProposalWithInstructionsTransactions_def Let_def mint_choice
    by (clarsimp simp: run_simps new_PublicKey_Key spec_seeds_defs Promise_all.simps
          BN_toArrayLike_le_0_1 BN_toArrayLike_le_0_2)
qed

subsection \<open>Runs in the concrete setting\<close>

lemmas demo_defs = demo_lib_def demo_program_def demo_coder_def demo_realm_def
  demo_connection_def demo_wallet_def createSplGovernanceProgram_def demo_instruction_def
  demo_instruction'_def

lemma demo_createProposalTx_run:
  "\<exists>r log. createProposalTx demo_lib demo_program (Key (PublicKey [1])) (Key (PublicKey [2]))
      ''p'' None (PublicKey [5]) = (Inr r, log)"
  by (simp add: createProposalTx_def demo_defs run_simps new_PublicKey_def Let_def)

lemma demo_insertTransactionTx_run:
  "\<exists>t log. insertTransactionTx demo_lib demo_program (Key (PublicKey [2]))
      (Key (PublicKey [20])) (Key (PublicKey [21])) 258 [demo_instruction] = (Inr t, log)"
  by (simp add: insertTransactionTx_def demo_defs run_simps new_PublicKey_def Let_def
        BN_toArrayLike_le_2 BN_toArrayLike_le_0_1)

lemma demo_insertTransactionTx_run':
  "\<exists>t log. insertTransactionTx demo_lib demo_program (Key (PublicKey [2]))
      (Key (PublicKey [20])) (Key (PublicKey [21])) 7 [demo_instruction] = (Inr t, log)"
  by (simp add: insertTransactionTx_def demo_defs run_simps new_PublicKey_def Let_def
        BN_toArrayLike_le_2 BN_toArrayLike_le_0_1)

lemma demo_composite_run:
  "\<exists>txs log. createProposalWithInstructionsTransactions demo_lib demo_program
      (Key (PublicKey [1])) (Key (PublicKey [2])) ''p'' [demo_instruction] (Some True)
      (PublicKey [5]) = (Inr txs, log)"
  by (simp add: createProposalWithInstructionsTransactions_def demo_defs run_simps
        new_PublicKey_def Let_def BN_toArrayLike_le_0_2 BN_toArrayLike_le_0_1
        Promise_all.simps)

lemma demo_fetch_run:
  "account_realmV2_fetch demo_lib demo_program (Key (PublicKey [1]))
     = (Inr (Some demo_realm), [Fetch (PublicKey [1])])"
  by (simp add: demo_defs run_simps new_PublicKey_def)


lemma demo_createProposalTx_council_run:
  "\<exists>r log. createProposalTx demo_lib demo_program (Key (PublicKey [1])) (Key (PublicKey [2]))
      ''p'' (Some True) (PublicKey [5]) = (Inr r, log)"
  by (simp add: createProposalTx_def demo_defs run_simps new_PublicKey_def Let_def)

lemma demo_fetch_fails:
  "account_realmV2_fetch demo_lib demo_program (Base58 ''abc'')
     = (Inl (Error ''Invalid public key input''), [])"
  by (simp add: demo_defs run_simps new_PublicKey_def)

lemma demo_insertTransactionTx_run2:
  "\<exists>t log. insertTransactionTx demo_lib demo_program (Key (PublicKey [2]))
      (Key (PublicKey [20])) (Key (PublicKey [21])) 258 [demo_instruction, demo_instruction']
      = (Inr t, log)"
  by (simp add: insertTransactionTx_def demo_defs run_simps new_PublicKey_def Let_def
        BN_toArrayLike_le_2 BN_toArrayLike_le_0_1)

lemma demo_composite_run2:
  "\<exists>txs log. createProposalWithInstructionsTransactions demo_lib demo_program
      (Key (PublicKey [1])) (Key (PublicKey [2])) ''p'' [demo_instruction, demo_instruction']
      None (PublicKey [5]) = (Inr txs, log)"
  by (simp add: createProposalWithInstructionsTransactions_def demo_defs run_simps
        new_PublicKey_def Let_def BN_toArrayLike_le_0_2 BN_toArrayLike_le_0_1
        Promise_all.simps)

subsection \<open>The derivations in a log\<close>

lemma derivations_append: "derivations (a @ b) = derivations a @ derivations b"
  by (induction a rule: derivations.induct) simp_all

lemma derivations_and_then:
  "derivations (snd (and_then m f)) =
     derivations (snd m) @ (case fst m of Inl e \<Rightarrow> [] | Inr x \<Rightarrow> derivations (snd (f x)))"
  by (cases m) (simp add: and_then_def derivations_append split: sum.splits prod.splits)

lemma fst_lift: "fst (lift r) = r" and snd_lift: "snd (lift r) = []"
  by (simp_all add: lift_def)

lemma fst_find: "fst (PublicKey_findProgramAddressSync lib seeds pid)
    = findProgramAddressSync lib seeds pid"
  and snd_find: "snd (PublicKey_findProgramAddressSync lib seeds pid)
    = [FindProgramAddress seeds pid]"
  by (simp_all add: find_unfold)

lemma derivations_methods_transaction:
  "derivations (snd (methods_transaction lib program m accs)) = []"
  by (simp add: methods_transaction_unfold split: sum.splits)

lemma derivations_fetch: "derivations (snd (account_realmV2_fetch lib program address)) = []"
  by (simp add: fetch_unfold split: sum.splits option.splits)

lemma fst_fetch_programId:
  "fst (account_realmV2_fetch lib (program\<lparr>program_programId := p\<rparr>) address)
     = fst (account_realmV2_fetch lib program address)"
  by (simp add: fetch_unfold split: sum.splits option.splits)

lemma derivations_throw: "derivations (snd (throw e)) = []"
  by (simp add: throw_def)

lemma derivations_Promise_all:
  "derivations (snd (Promise_all ps)) = concat (map (\<lambda>p. derivations (snd p)) ps)"
  by (induction ps)
     (auto simp: Promise_all.simps ret_def derivations_append split: sum.splits prod.splits)

lemmas derivations_simps = derivations_and_then fst_lift snd_lift fst_find snd_find
  derivations_methods_transaction derivations_fetch derivations_throw derivations_Promise_all

lemma derivations_ret: "derivations (snd (ret x)) = []"
  by (simp add: ret_def)

lemma derives_only_under_and_then:
  "derives_only_under pid (snd (and_then m f)) \<longleftrightarrow>
     derives_only_under pid (snd m)
     \<and> (\<forall>x. fst m = Inr x \<longrightarrow> derives_only_under pid (snd (f x)))"
  by (auto simp: derives_only_under_def derivations_and_then split: sum.splits)

lemma derives_only_under_find:
  "derives_only_under pid (snd (PublicKey_findProgramAddressSync lib seeds pid')) \<longleftrightarrow> pid' = pid"
  by (simp add: derives_only_under_def snd_find)

lemma derives_only_under_none:
  "derives_only_under pid (snd (lift r))"
  "derives_only_under pid (snd (ret x))"
  "derives_only_under pid (snd (throw e))"
  "derives_only_under pid (snd (methods_transaction lib program m accs))"
  "derives_only_under pid (snd (account_realmV2_fetch lib program address))"
  by (simp_all add: derives_only_under_def derivations_simps derivations_ret)

lemma derives_only_under_Promise_all:
  "derives_only_under pid (snd (Promise_all ps)) \<longleftrightarrow>
     list_all (\<lambda>p. derives_only_under pid (snd p)) ps"
  by (induction ps) (simp_all add: derives_only_under_def derivations_Promise_all)

lemmas derives_only_under_simps = derives_only_under_and_then derives_only_under_find
  derives_only_under_none derives_only_under_Promise_all

lemma createProposalTx_derives_under:
  "derives_only_under (GOVERNANCE_PROGRAM_ID lib)
     (snd (createProposalTx lib gp realmKey governanceKey proposalName councilVote_arg
        proposalSeed))"
  unfolding createProposalTx_def Let_def
  by (simp add: derives_only_under_simps case_prod_beta split: option.splits)

lemma insertTransactionTx_derives_under:
  "derives_only_under (GOVERNANCE_PROGRAM_ID lib)
     (snd (insertTransactionTx lib gp governanceKey proposalAddress proposalOwnerRecordKey
        txIndex instructions))"
  unfolding insertTransactionTx_def Let_def
  by (simp add: derives_only_under_simps case_prod_beta)

lemma composite_derives_under:
  "derives_only_under (GOVERNANCE_PROGRAM_ID lib)
     (snd (createProposalWithInstructionsTransactions lib gp realmKey governanceKey
        proposalName instructions councilVote_arg proposalSeed))"
  unfolding createProposalWithInstructionsTransactions_def Let_def
  by (simp add: derives_only_under_simps case_prod_beta split: option.splits)

lemma derivations_case_option:
  "derivations (snd (case x of None \<Rightarrow> a | Some y \<Rightarrow> b y)) =
     (case x of None \<Rightarrow> derivations (snd a) | Some y \<Rightarrow> derivations (snd (b y)))"
  by (cases x) simp_all

lemma createProposalTx_derivations_programId:
  "derivations (snd (createProposalTx lib (gp\<lparr>program_programId := p\<rparr>) realmKey
       governanceKey proposalName councilVote_arg proposalSeed))
   = derivations (snd (createProposalTx lib gp realmKey governanceKey proposalName
       councilVote_arg proposalSeed))"
  unfolding createProposalTx_def Let_def
  by (simp add: derivations_simps derivations_ret derivations_case_option
        fst_fetch_programId case_prod_beta
      cong: sum.case_cong option.case_cong)

lemma insertTransactionTx_derivations_programId:
  "derivations (snd (insertTransactionTx lib (gp\<lparr>program_programId := p\<rparr>) governanceKey
       proposalAddress proposalOwnerRecordKey txIndex instructions))
   = derivations (snd (insertTransactionTx lib gp governanceKey proposalAddress
       proposalOwnerRecordKey txIndex instructions))"
  unfolding insertTransactionTx_def Let_def
  by (simp add: derivations_simps derivations_ret case_prod_beta cong: sum.case_cong)

lemma composite_derivations_programId:
  "derivations (snd (createProposalWithInstructionsTransactions lib
       (gp\<lparr>program_programId := p\<rparr>) realmKey governanceKey proposalName instructions
       councilVote_arg proposalSeed))
   = derivations (snd (createProposalWithInstructionsTransactions lib gp realmKey
       governanceKey proposalName instructions councilVote_arg proposalSeed))"
  unfolding createProposalWithInstructionsTransactions_def Let_def
  by (simp add: derivations_simps derivations_ret derivations_case_option
        fst_fetch_programId case_prod_beta
      cong: sum.case_cong option.case_cong)

subsection \<open>A realm without council mint\<close>

text \<open>
  With councilVote set and no council mint in the realm, \<^verbatim>\<open>governingTokenMint\<close> is
  \<^verbatim>\<open>null\<close>, and the first \<^verbatim>\<open>governingTokenMint.toBuffer()\<close> throws.
\<close>

lemma createProposalTx_without_council_mint:
  assumes "account_realmV2_fetch lib gp realmKey = (Inr (Some realm), l0)"
      and "councilMint (config realm) = None"
      and "new_PublicKey lib governanceKey = Inr governancePk"
  shows "createProposalTx lib gp realmKey governanceKey proposalName (Some True) proposalSeed
           = (Inl (TypeError ''Cannot read properties of null''), l0)"
  using assms
  by (simp add: createProposalTx_def and_then_Inr and_then_lift nonnull_def)

subsection \<open>Lists of records\<close>

lemma records_verbatim_iff:
  "(length vec = length ixs
     \<and> (\<forall>i<length ixs.
            programId (vec ! i) = ix_programId (ixs ! i)
          \<and> accounts (vec ! i) = ix_keys (ixs ! i)
          \<and> data (vec ! i) = ix_data (ixs ! i)))
   \<longleftrightarrow> vec = map getInstructionDataFromInstruction ixs"
  by (auto simp: list_eq_iff_nth_eq getInstructionDataFromInstruction_def
      intro!: InstructionData.equality)

section \<open>Properties\<close>

subsection \<open>Address derivations of \<^verbatim>\<open>createProposalTx\<close>\<close>

text \<open>
  C1. Whenever \<open>createProposalTx\<close> returns, for any realm key, governance key, proposal name
  and councilVote flag, it has derived exactly four addresses, all under
  \<open>GOVERNANCE_PROGRAM_ID\<close>, in this order and from these seeds: the proposal address from
  [governance seed, governance key, governing token mint, proposal seed]; the owner record
  from [governance seed, realm key, governing token mint, caller's key]; the realm config
  from ["realm-config", realm key]; the proposal deposit from [proposal address, caller's
  key]. The four results are the addresses the transaction names for these accounts, and
  the first two are returned.
\<close>

theorem createProposalTx_derivations:
  assumes "createProposalTx lib governanceProgram realmKey governanceKey proposalName
             councilVote_arg proposalSeed = (Inr r, log)"
  shows "\<exists>governancePk realmPk mint caller realmConfigAddress proposalDepositAddress b1 b2 b3 b4.
      new_PublicKey lib governanceKey = Inr governancePk
    \<and> new_PublicKey lib realmKey = Inr realmPk
    \<and> account_of (res_tx r) ''governingTokenMint'' = Some mint
    \<and> caller = publicKey (wallet (provider governanceProgram))
    \<and> findProgramAddressSync lib (spec_proposal_seeds lib governancePk mint proposalSeed)
          (GOVERNANCE_PROGRAM_ID lib) = Inr (res_proposalAddress r, b1)
    \<and> findProgramAddressSync lib (spec_owner_record_seeds lib realmPk mint caller)
          (GOVERNANCE_PROGRAM_ID lib) = Inr (res_proposalOwnerRecordKey r, b2)
    \<and> findProgramAddressSync lib (spec_realm_config_seeds realmPk)
          (GOVERNANCE_PROGRAM_ID lib) = Inr (realmConfigAddress, b3)
    \<and> findProgramAddressSync lib (spec_deposit_seeds (res_proposalAddress r) caller)
          (GOVERNANCE_PROGRAM_ID lib) = Inr (proposalDepositAddress, b4)
    \<and> derivations log =
        [(spec_proposal_seeds lib governancePk mint proposalSeed, GOVERNANCE_PROGRAM_ID lib),
         (spec_owner_record_seeds lib realmPk mint caller, GOVERNANCE_PROGRAM_ID lib),
         (spec_realm_config_seeds realmPk, GOVERNANCE_PROGRAM_ID lib),
         (spec_deposit_seeds (res_proposalAddress r) caller, GOVERNANCE_PROGRAM_ID lib)]
    \<and> account_of (res_tx r) ''proposalAddress'' = Some (res_proposalAddress r)
    \<and> account_of (res_tx r) ''proposalOwnerRecord'' = Some (res_proposalOwnerRecordKey r)
    \<and> account_of (res_tx r) ''realmConfigAddress'' = Some realmConfigAddress
    \<and> account_of (res_tx r) ''proposalDepositAddress'' = Some proposalDepositAddress"
  using assms
  unfolding createProposalTx_def Let_def
  by (clarsimp simp: Inr_iffs new_PublicKey_Key account_of_def spec_proposal_seeds_def
        spec_owner_record_seeds_def spec_realm_config_seeds_def spec_deposit_seeds_def
      split: option.splits prod.splits)

theorem createProposalTx_derivations_witness:
  "\<exists>r log. createProposalTx demo_lib demo_program (Key (PublicKey [1])) (Key (PublicKey [2]))
      ''p'' None (PublicKey [5]) = (Inr r, log) \<and> length (derivations log) = 4"
proof -
  obtain r log where run:
    "createProposalTx demo_lib demo_program (Key (PublicKey [1])) (Key (PublicKey [2]))
      ''p'' None (PublicKey [5]) = (Inr r, log)"
    using demo_createProposalTx_run by blast
  from createProposalTx_derivations [OF run] have "length (derivations log) = 4"
    by clarsimp
  with run show ?thesis by blast
qed

subsection \<open>The composite builder against the individual builders\<close>

text \<open>
  C2. For every input and a fixed proposal seed,
  \<open>createProposalWithInstructionsTransactions\<close> returns a list exactly when the three
  individual builders return on the same inputs (\<open>insertTransactionTx\<close> with txIndex 0,
  and both later builders given the proposal address and owner record that
  \<open>createProposalTx\<close> returned), and the list is then exactly their three transactions in
  the order create-proposal, insert-transaction, sign-off. All three name the same proposal
  address and the same owner record, the composite derives the addresses the individual
  builders derive, and the transactions it builds are the ones it returns.
\<close>

theorem composite_matches_individual_builders:
  "(fst (createProposalWithInstructionsTransactions lib governanceProgram realmKey governanceKey
       proposalName instructions councilVote_arg proposalSeed) = Inr txs
    \<longleftrightarrow>
     (\<exists>r t2 t3.
        fst (createProposalTx lib governanceProgram realmKey governanceKey proposalName
          councilVote_arg proposalSeed) = Inr r
      \<and> fst (insertTransactionTx lib governanceProgram governanceKey
          (Key (res_proposalAddress r)) (Key (res_proposalOwnerRecordKey r)) 0 instructions)
          = Inr t2
      \<and> fst (createProposalSignOffTx lib governanceProgram realmKey governanceKey
          (Key (res_proposalOwnerRecordKey r)) (Key (res_proposalAddress r))) = Inr t3
      \<and> txs = [res_tx r, t2, t3]))
   \<and>
   (createProposalWithInstructionsTransactions lib governanceProgram realmKey governanceKey
       proposalName instructions councilVote_arg proposalSeed = (Inr txs, log)
    \<longrightarrow>
     (\<exists>r t2 t3 l1 l2 l3.
        createProposalTx lib governanceProgram realmKey governanceKey proposalName
          councilVote_arg proposalSeed = (Inr r, l1)
      \<and> insertTransactionTx lib governanceProgram governanceKey
          (Key (res_proposalAddress r)) (Key (res_proposalOwnerRecordKey r)) 0 instructions
          = (Inr t2, l2)
      \<and> createProposalSignOffTx lib governanceProgram realmKey governanceKey
          (Key (res_proposalOwnerRecordKey r)) (Key (res_proposalAddress r)) = (Inr t3, l3)
      \<and> txs = [res_tx r, t2, t3]
      \<and> account_of (res_tx r) ''proposalAddress'' = Some (res_proposalAddress r)
      \<and> account_of t2 ''proposal'' = Some (res_proposalAddress r)
      \<and> account_of t3 ''proposal'' = Some (res_proposalAddress r)
      \<and> account_of (res_tx r) ''proposalOwnerRecord'' = Some (res_proposalOwnerRecordKey r)
      \<and> account_of t2 ''tokenOwnerRecord'' = Some (res_proposalOwnerRecordKey r)
      \<and> account_of t3 ''proposalOwnerRecord'' = Some (res_proposalOwnerRecordKey r)
      \<and> derivations log = derivations l1 @ derivations l2
      \<and> transactions_built log = txs))"
  (is "(?lhs \<longleftrightarrow> ?rhs) \<and> ?detail")
proof (intro conjI iffI)
  assume ?lhs
  then show ?rhs
    by (clarsimp simp: fst_Inr_iff createProposalWithInstructionsTransactions_Inr_iff
          createProposalTx_Inr_iff insertTransactionTx_Inr_iff createProposalSignOffTx_Inr_iff
          new_PublicKey_Key)
next
  assume ?rhs
  then show ?lhs
    by (clarsimp simp: fst_Inr_iff createProposalWithInstructionsTransactions_Inr_iff
          createProposalTx_Inr_iff insertTransactionTx_Inr_iff createProposalSignOffTx_Inr_iff
          new_PublicKey_Key)
next
  show ?detail
    by (clarsimp simp: createProposalWithInstructionsTransactions_Inr_iff
          createProposalTx_Inr_iff insertTransactionTx_Inr_iff createProposalSignOffTx_Inr_iff
          new_PublicKey_Key account_of_def)
qed

theorem composite_matches_individual_builders_witness:
  "\<exists>r t2 t3 txs.
      fst (createProposalTx demo_lib demo_program (Key (PublicKey [1])) (Key (PublicKey [2]))
        ''p'' (Some True) (PublicKey [5])) = Inr r
    \<and> fst (createProposalWithInstructionsTransactions demo_lib demo_program
        (Key (PublicKey [1])) (Key (PublicKey [2])) ''p'' [demo_instruction] (Some True)
        (PublicKey [5])) = Inr txs
    \<and> txs = [res_tx r, t2, t3]"
proof -
  obtain txs log where run:
    "createProposalWithInstructionsTransactions demo_lib demo_program
      (Key (PublicKey [1])) (Key (PublicKey [2])) ''p'' [demo_instruction] (Some True)
      (PublicKey [5]) = (Inr txs, log)"
    using demo_composite_run by blast
  then have "fst (createProposalWithInstructionsTransactions demo_lib demo_program
      (Key (PublicKey [1])) (Key (PublicKey [2])) ''p'' [demo_instruction] (Some True)
      (PublicKey [5])) = Inr txs"
    by simp
  with composite_matches_individual_builders
    [of demo_lib demo_program "Key (PublicKey [1])" "Key (PublicKey [2])" "''p''"
        "[demo_instruction]" "Some True" "PublicKey [5]" txs log]
  show ?thesis by blast
qed

subsection \<open>The governing token mint\<close>

text \<open>
  C3. For every fetched realm, \<open>createProposalTx\<close> and
  \<open>createProposalWithInstructionsTransactions\<close> select the realm's council mint as the
  governing token mint when councilVote is true, and the realm's community mint when
  councilVote is false or omitted: every transaction they return names that mint as
  \<open>governingTokenMint\<close>, and each of them returns exactly when the governance key parses,
  the selected mint is present, the derivations seeded with that mint succeed (for the
  composite builder the proposal-transaction derivation too) and the coder accepts the
  arguments. When the selected mint is absent, which is the case of councilVote with a realm
  that has no council mint, both builders throw the TypeError of reading \<^verbatim>\<open>toBuffer\<close> of
  \<^verbatim>\<open>null\<close>, after the fetch and before any derivation.
\<close>

theorem governingTokenMint_selection:
  assumes "account_realmV2_fetch lib governanceProgram realmKey = (Inr (Some realm), l0)"
      and "new_PublicKey lib realmKey = Inr realmPk"
  shows "(createProposalTx lib governanceProgram realmKey governanceKey proposalName
             councilVote_arg proposalSeed = (Inr r, log)
          \<longrightarrow> account_of (res_tx r) ''governingTokenMint''
                = spec_governingTokenMint councilVote_arg realm)
    \<and> (createProposalWithInstructionsTransactions lib governanceProgram realmKey governanceKey
             proposalName instructions councilVote_arg proposalSeed = (Inr txs, log')
          \<longrightarrow> (\<exists>t1 t2 t3. txs = [t1, t2, t3]
                \<and> account_of t1 ''governingTokenMint''
                    = spec_governingTokenMint councilVote_arg realm))
    \<and> spec_governingTokenMint (Some True) realm = councilMint (config realm)
    \<and> spec_governingTokenMint (Some False) realm = Some (communityMint realm)
    \<and> spec_governingTokenMint None realm = Some (communityMint realm)
    \<and> ((\<exists>r' l. createProposalTx lib governanceProgram realmKey governanceKey proposalName
             councilVote_arg proposalSeed = (Inr r', l))
        \<longleftrightarrow>
         (\<exists>governancePk mint pa b1 po b2 rc b3 pd b4 bytes.
            new_PublicKey lib governanceKey = Inr governancePk
          \<and> spec_governingTokenMint councilVote_arg realm = Some mint
          \<and> findProgramAddressSync lib (spec_proposal_seeds lib governancePk mint proposalSeed)
               (GOVERNANCE_PROGRAM_ID lib) = Inr (pa, b1)
          \<and> findProgramAddressSync lib
               (spec_owner_record_seeds lib realmPk mint
                  (publicKey (wallet (provider governanceProgram))))
               (GOVERNANCE_PROGRAM_ID lib) = Inr (po, b2)
          \<and> findProgramAddressSync lib (spec_realm_config_seeds realmPk)
               (GOVERNANCE_PROGRAM_ID lib) = Inr (rc, b3)
          \<and> findProgramAddressSync lib
               (spec_deposit_seeds pa (publicKey (wallet (provider governanceProgram))))
               (GOVERNANCE_PROGRAM_ID lib) = Inr (pd, b4)
          \<and> instruction_encode (coder governanceProgram)
               (createProposal proposalName '''' ''singleChoice'' [''Approve''] True
                  proposalSeed) = Inr bytes))
    \<and> ((\<exists>txs' l. createProposalWithInstructionsTransactions lib governanceProgram realmKey
             governanceKey proposalName instructions councilVote_arg proposalSeed
             = (Inr txs', l))
        \<longleftrightarrow>
         (\<exists>governancePk mint pa b1 po b2 rc b3 pd b4 pt b5 bytes1 bytes2 bytes3.
            new_PublicKey lib governanceKey = Inr governancePk
          \<and> spec_governingTokenMint councilVote_arg realm = Some mint
          \<and> findProgramAddressSync lib (spec_proposal_seeds lib governancePk mint proposalSeed)
               (GOVERNANCE_PROGRAM_ID lib) = Inr (pa, b1)
          \<and> findProgramAddressSync lib
               (spec_owner_record_seeds lib realmPk mint
                  (publicKey (wallet (provider governanceProgram))))
               (GOVERNANCE_PROGRAM_ID lib) = Inr (po, b2)
          \<and> findProgramAddressSync lib (spec_realm_config_seeds realmPk)
               (GOVERNANCE_PROGRAM_ID lib) = Inr (rc, b3)
          \<and> findProgramAddressSync lib
               (spec_deposit_seeds pa (publicKey (wallet (provider governanceProgram))))
               (GOVERNANCE_PROGRAM_ID lib) = Inr (pd, b4)
          \<and> findProgramAddressSync lib (spec_proposal_transaction_seeds lib pa 0 0)
               (GOVERNANCE_PROGRAM_ID lib) = Inr (pt, b5)
          \<and> instruction_encode (coder governanceProgram)
               (createProposal proposalName '''' ''singleChoice'' [''Approve''] True
                  proposalSeed) = Inr bytes1
          \<and> instruction_encode (coder governanceProgram)
               (insertTransaction 0 0 0 (map getInstructionDataFromInstruction instructions))
               = Inr bytes2
          \<and> instruction_encode (coder governanceProgram) signOffProposal = Inr bytes3))
    \<and> (new_PublicKey lib governanceKey = Inr gk
          \<and> spec_governingTokenMint councilVote_arg realm = None
        \<longrightarrow> createProposalTx lib governanceProgram realmKey governanceKey proposalName
               councilVote_arg proposalSeed
               = (Inl (TypeError ''Cannot read properties of null''), l0)
          \<and> createProposalWithInstructionsTransactions lib governanceProgram realmKey
               governanceKey proposalName instructions councilVote_arg proposalSeed
               = (Inl (TypeError ''Cannot read properties of null''), l0))"
  (is "?single \<and> ?composite \<and> ?c1 \<and> ?c2 \<and> ?c3 \<and> ?returns1 \<and> ?returns2 \<and> ?null")
proof -
  from assms have k:
      "fetchNullable_realmV2 (connection (provider governanceProgram)) realmPk
         = Inr (Some realm)"
    by (auto simp: fetch_Inr_iff)
  note realmPk = assms(2)
  have single: ?single
    using k realmPk by (clarsimp simp: createProposalTx_Inr_iff account_of_def)
  have composite: ?composite
    using k realmPk
    by (clarsimp simp: createProposalWithInstructionsTransactions_Inr_iff account_of_def)
  have choice: ?c1 ?c2 ?c3
    by (simp_all add: spec_governingTokenMint_def)
  have returns1: ?returns1
    using k realmPk by (simp add: createProposalTx_Inr_iff) blast
  have returns2: ?returns2
    using k realmPk by (simp add: createProposalWithInstructionsTransactions_Inr_iff) blast
  have null: ?null
    using assms(1)
    by (simp add: createProposalTx_def createProposalWithInstructionsTransactions_def
          and_then_Inr and_then_lift nonnull_def mint_choice)
  from single composite choice returns1 returns2 null show ?thesis by blast
qed

theorem governingTokenMint_selection_witness:
  "\<exists>r log txs log' t1 t2 t3 txs'' log'' u1 u2 u3.
      createProposalTx demo_lib demo_program (Key (PublicKey [1])) (Key (PublicKey [2]))
        ''p'' (Some True) (PublicKey [5]) = (Inr r, log)
    \<and> account_of (res_tx r) ''governingTokenMint'' = Some (PublicKey [11])
    \<and> createProposalWithInstructionsTransactions demo_lib demo_program
        (Key (PublicKey [1])) (Key (PublicKey [2])) ''p'' [demo_instruction] (Some True)
        (PublicKey [5]) = (Inr txs, log')
    \<and> txs = [t1, t2, t3]
    \<and> account_of t1 ''governingTokenMint'' = Some (PublicKey [11])
    \<and> createProposalWithInstructionsTransactions demo_lib demo_program
        (Key (PublicKey [1])) (Key (PublicKey [2])) ''p'' [demo_instruction, demo_instruction']
        None (PublicKey [5]) = (Inr txs'', log'')
    \<and> txs'' = [u1, u2, u3]
    \<and> account_of u1 ''governingTokenMint'' = Some (PublicKey [10])"
proof -
  have parse: "new_PublicKey demo_lib (Key (PublicKey [1])) = Inr (PublicKey [1])"
    by (simp add: new_PublicKey_Key)
  have council_mint: "spec_governingTokenMint (Some True) demo_realm = Some (PublicKey [11])"
    by (simp add: spec_governingTokenMint_def demo_realm_def)
  have community_mint: "spec_governingTokenMint None demo_realm = Some (PublicKey [10])"
    by (simp add: spec_governingTokenMint_def demo_realm_def)
  obtain r log where run:
    "createProposalTx demo_lib demo_program (Key (PublicKey [1])) (Key (PublicKey [2]))
      ''p'' (Some True) (PublicKey [5]) = (Inr r, log)"
    using demo_createProposalTx_council_run by blast
  obtain txs log' where crun:
    "createProposalWithInstructionsTransactions demo_lib demo_program
        (Key (PublicKey [1])) (Key (PublicKey [2])) ''p'' [demo_instruction] (Some True)
        (PublicKey [5]) = (Inr txs, log')"
    using demo_composite_run by blast
  obtain txs'' log'' where crun':
    "createProposalWithInstructionsTransactions demo_lib demo_program
        (Key (PublicKey [1])) (Key (PublicKey [2])) ''p'' [demo_instruction, demo_instruction']
        None (PublicKey [5]) = (Inr txs'', log'')"
    using demo_composite_run2 by blast
  note sel = governingTokenMint_selection [OF demo_fetch_run parse]
  note council = sel
      [of "Key (PublicKey [2])" "''p''" "Some True" "PublicKey [5]" r log
          "[demo_instruction]" txs log']
  note community = sel
      [of "Key (PublicKey [2])" "''p''" None "PublicKey [5]" r log
          "[demo_instruction, demo_instruction']" txs'' log'']
  from council [THEN conjunct1, THEN mp, OF run] council_mint
  have single: "account_of (res_tx r) ''governingTokenMint'' = Some (PublicKey [11])"
    by (simp only:)
  from council [THEN conjunct2, THEN conjunct1, THEN mp, OF crun] council_mint
  obtain t1 t2 t3 where t: "txs = [t1, t2, t3]"
      "account_of t1 ''governingTokenMint'' = Some (PublicKey [11])"
    by (elim exE conjE) (simp only:)
  from community [THEN conjunct2, THEN conjunct1, THEN mp, OF crun'] community_mint
  obtain u1 u2 u3 where u: "txs'' = [u1, u2, u3]"
      "account_of u1 ''governingTokenMint'' = Some (PublicKey [10])"
    by (elim exE conjE) (simp only:)
  show ?thesis
    apply (intro exI conjI)
           apply (rule run)
          apply (rule single)
         apply (rule crun)
        apply (rule t(1))
       apply (rule t(2))
      apply (rule crun')
     apply (rule u(1))
    apply (rule u(2))
    done
qed

subsection \<open>The nested address of \<^verbatim>\<open>insertTransactionTx\<close>\<close>

text \<open>
  C4. Whenever \<open>insertTransactionTx\<close> returns, for any proposal address and txIndex, it has
  derived one address, the proposal-transaction address, under \<open>GOVERNANCE_PROGRAM_ID\<close> from
  [governance seed, proposal address, option index 0 as one byte, txIndex as two bytes with
  the low byte first] (bn.js writes the magnitude of the number), and it passes option
  index 0, the txIndex and hold-up time 0 to \<open>insertTransaction\<close>. A second run that differs
  only in txIndex names the same proposal and owner record; its accounts differ from the
  first run's in the proposal-transaction address only.
\<close>

theorem insertTransactionTx_nested_address:
  assumes "insertTransactionTx lib governanceProgram governanceKey proposalAddress
             proposalOwnerRecordKey txIndex instructions = (Inr t, log)"
      and "insertTransactionTx lib governanceProgram governanceKey proposalAddress
             proposalOwnerRecordKey txIndex' instructions = (Inr t', log')"
  shows "\<exists>proposalPk ownerPk address bump.
      new_PublicKey lib proposalAddress = Inr proposalPk
    \<and> new_PublicKey lib proposalOwnerRecordKey = Inr ownerPk
    \<and> \<bar>txIndex\<bar> < 65536
    \<and> findProgramAddressSync lib
         (spec_proposal_transaction_seeds lib proposalPk 0 (nat \<bar>txIndex\<bar>))
         (GOVERNANCE_PROGRAM_ID lib) = Inr (address, bump)
    \<and> derivations log =
         [(spec_proposal_transaction_seeds lib proposalPk 0 (nat \<bar>txIndex\<bar>),
           GOVERNANCE_PROGRAM_ID lib)]
    \<and> account_of t ''proposalTransactionAddress'' = Some address
    \<and> (\<exists>vec. tx_method t = insertTransaction 0 txIndex 0 vec)
    \<and> account_of t ''proposal'' = Some proposalPk
    \<and> account_of t' ''proposal'' = Some proposalPk
    \<and> account_of t ''tokenOwnerRecord'' = Some ownerPk
    \<and> account_of t' ''tokenOwnerRecord'' = Some ownerPk
    \<and> filter (\<lambda>a. fst a \<noteq> ''proposalTransactionAddress'') (tx_accounts t')
        = filter (\<lambda>a. fst a \<noteq> ''proposalTransactionAddress'') (tx_accounts t)"
  using assms
  by (clarsimp simp: insertTransactionTx_Inr_iff account_of_def)

theorem insertTransactionTx_nested_address_witness:
  "\<exists>t log t' log'.
      insertTransactionTx demo_lib demo_program (Key (PublicKey [2])) (Key (PublicKey [20]))
        (Key (PublicKey [21])) 258 [demo_instruction] = (Inr t, log)
    \<and> insertTransactionTx demo_lib demo_program (Key (PublicKey [2])) (Key (PublicKey [20]))
        (Key (PublicKey [21])) 7 [demo_instruction] = (Inr t', log')
    \<and> derivations log =
        [(spec_proposal_transaction_seeds demo_lib (PublicKey [20]) 0 258,
          GOVERNANCE_PROGRAM_ID demo_lib)]
    \<and> account_of t' ''proposal'' = Some (PublicKey [20])"
proof -
  obtain t log where run:
    "insertTransactionTx demo_lib demo_program (Key (PublicKey [2])) (Key (PublicKey [20]))
        (Key (PublicKey [21])) 258 [demo_instruction] = (Inr t, log)"
    using demo_insertTransactionTx_run by blast
  obtain t' log' where run':
    "insertTransactionTx demo_lib demo_program (Key (PublicKey [2])) (Key (PublicKey [20]))
        (Key (PublicKey [21])) 7 [demo_instruction] = (Inr t', log')"
    using demo_insertTransactionTx_run' by blast
  from insertTransactionTx_nested_address [OF run run']
  have "derivations log =
        [(spec_proposal_transaction_seeds demo_lib (PublicKey [20]) 0 258,
          GOVERNANCE_PROGRAM_ID demo_lib)]
      \<and> account_of t' ''proposal'' = Some (PublicKey [20])"
    by (clarsimp simp: new_PublicKey_Key)
  with run run' show ?thesis by blast
qed

subsection \<open>A realm that cannot be fetched\<close>




subsection \<open>The instruction records\<close>

text \<open>
  C6. For every list of caller instructions, \<open>insertTransactionTx\<close> and
  \<open>createProposalWithInstructionsTransactions\<close> map the list into a list of records of the
  same length and order, whose i-th record holds the program identifier, the account
  metadata list and the data bytes of the i-th instruction, unchanged: that list is what
  every transaction they return passes to \<open>insertTransaction\<close>, and each builder returns
  exactly when its other library calls succeed and the coder accepts \<open>insertTransaction\<close>
  with that list.
\<close>

theorem instruction_records_verbatim:
  "programId (getInstructionDataFromInstruction ix) = ix_programId ix
   \<and> accounts (getInstructionDataFromInstruction ix) = ix_keys ix
   \<and> data (getInstructionDataFromInstruction ix) = ix_data ix
   \<and> (insertTransactionTx lib governanceProgram governanceKey proposalAddress
       proposalOwnerRecordKey txIndex instructions = (Inr t, log)
    \<longrightarrow> (\<exists>vec. tx_method t = insertTransaction 0 txIndex 0 vec
          \<and> length vec = length instructions
          \<and> (\<forall>i<length instructions.
                programId (vec ! i) = ix_programId (instructions ! i)
              \<and> accounts (vec ! i) = ix_keys (instructions ! i)
              \<and> data (vec ! i) = ix_data (instructions ! i))))
   \<and> (createProposalWithInstructionsTransactions lib governanceProgram realmKey governanceKey
       proposalName instructions councilVote_arg proposalSeed = (Inr txs, log')
    \<longrightarrow> (\<exists>t1 t2 t3 vec. txs = [t1, t2, t3]
          \<and> tx_method t2 = insertTransaction 0 0 0 vec
          \<and> length vec = length instructions
          \<and> (\<forall>i<length instructions.
                programId (vec ! i) = ix_programId (instructions ! i)
              \<and> accounts (vec ! i) = ix_keys (instructions ! i)
              \<and> data (vec ! i) = ix_data (instructions ! i))))
   \<and> ((\<exists>t' l. insertTransactionTx lib governanceProgram governanceKey proposalAddress
          proposalOwnerRecordKey txIndex instructions = (Inr t', l))
      \<longleftrightarrow>
       (\<exists>proposalPk governancePk ownerPk address bump bytes vec.
          new_PublicKey lib proposalAddress = Inr proposalPk
        \<and> \<bar>txIndex\<bar> < 65536
        \<and> findProgramAddressSync lib
             (spec_proposal_transaction_seeds lib proposalPk 0 (nat \<bar>txIndex\<bar>))
             (GOVERNANCE_PROGRAM_ID lib) = Inr (address, bump)
        \<and> new_PublicKey lib governanceKey = Inr governancePk
        \<and> new_PublicKey lib proposalOwnerRecordKey = Inr ownerPk
        \<and> length vec = length instructions
        \<and> (\<forall>i<length instructions.
              programId (vec ! i) = ix_programId (instructions ! i)
            \<and> accounts (vec ! i) = ix_keys (instructions ! i)
            \<and> data (vec ! i) = ix_data (instructions ! i))
        \<and> instruction_encode (coder governanceProgram) (insertTransaction 0 txIndex 0 vec)
            = Inr bytes))
   \<and> ((\<exists>txs' l. createProposalWithInstructionsTransactions lib governanceProgram realmKey
          governanceKey proposalName instructions councilVote_arg proposalSeed = (Inr txs', l))
      \<longleftrightarrow>
       (\<exists>r l1 t3 l3 pt b5 bytes vec.
          createProposalTx lib governanceProgram realmKey governanceKey proposalName
            councilVote_arg proposalSeed = (Inr r, l1)
        \<and> createProposalSignOffTx lib governanceProgram realmKey governanceKey
            (Key (res_proposalOwnerRecordKey r)) (Key (res_proposalAddress r)) = (Inr t3, l3)
        \<and> findProgramAddressSync lib
             (spec_proposal_transaction_seeds lib (res_proposalAddress r) 0 0)
             (GOVERNANCE_PROGRAM_ID lib) = Inr (pt, b5)
        \<and> length vec = length instructions
        \<and> (\<forall>i<length instructions.
              programId (vec ! i) = ix_programId (instructions ! i)
            \<and> accounts (vec ! i) = ix_keys (instructions ! i)
            \<and> data (vec ! i) = ix_data (instructions ! i))
        \<and> instruction_encode (coder governanceProgram) (insertTransaction 0 0 0 vec)
            = Inr bytes))"
  (is "?p \<and> ?a \<and> ?d \<and> ?single \<and> ?composite \<and> ?returns1 \<and> ?returns2")
proof -
  have fields: ?p ?a ?d
    by (simp_all add: getInstructionDataFromInstruction_def)
  have single: ?single
    by (clarsimp simp: insertTransactionTx_Inr_iff getInstructionDataFromInstruction_def)
  have composite: ?composite
    by (clarsimp simp: createProposalWithInstructionsTransactions_Inr_iff
          getInstructionDataFromInstruction_def)
  have verbatim: "length vec = length instructions
        \<and> (\<forall>i<length instructions.
              programId (vec ! i) = ix_programId (instructions ! i)
            \<and> accounts (vec ! i) = ix_keys (instructions ! i)
            \<and> data (vec ! i) = ix_data (instructions ! i))
        \<and> instruction_encode (coder governanceProgram) (insertTransaction 0 n 0 vec)
            = Inr bytes
      \<longleftrightarrow> vec = map getInstructionDataFromInstruction instructions
        \<and> instruction_encode (coder governanceProgram)
            (insertTransaction 0 n 0 (map getInstructionDataFromInstruction instructions))
            = Inr bytes" for vec n bytes
    using records_verbatim_iff [of vec instructions] by auto
  have returns1: ?returns1
  proof (rule iffI)
    assume "\<exists>t' l. insertTransactionTx lib governanceProgram governanceKey proposalAddress
          proposalOwnerRecordKey txIndex instructions = (Inr t', l)"
    then show "\<exists>proposalPk governancePk ownerPk address bump bytes vec.
          new_PublicKey lib proposalAddress = Inr proposalPk
        \<and> \<bar>txIndex\<bar> < 65536
        \<and> findProgramAddressSync lib
             (spec_proposal_transaction_seeds lib proposalPk 0 (nat \<bar>txIndex\<bar>))
             (GOVERNANCE_PROGRAM_ID lib) = Inr (address, bump)
        \<and> new_PublicKey lib governanceKey = Inr governancePk
        \<and> new_PublicKey lib proposalOwnerRecordKey = Inr ownerPk
        \<and> length vec = length instructions
        \<and> (\<forall>i<length instructions.
              programId (vec ! i) = ix_programId (instructions ! i)
            \<and> accounts (vec ! i) = ix_keys (instructions ! i)
            \<and> data (vec ! i) = ix_data (instructions ! i))
        \<and> instruction_encode (coder governanceProgram) (insertTransaction 0 txIndex 0 vec)
            = Inr bytes"
      unfolding verbatim by (clarsimp simp: insertTransactionTx_Inr_iff)
  next
    assume "\<exists>proposalPk governancePk ownerPk address bump bytes vec.
          new_PublicKey lib proposalAddress = Inr proposalPk
        \<and> \<bar>txIndex\<bar> < 65536
        \<and> findProgramAddressSync lib
             (spec_proposal_transaction_seeds lib proposalPk 0 (nat \<bar>txIndex\<bar>))
             (GOVERNANCE_PROGRAM_ID lib) = Inr (address, bump)
        \<and> new_PublicKey lib governanceKey = Inr governancePk
        \<and> new_PublicKey lib proposalOwnerRecordKey = Inr ownerPk
        \<and> length vec = length instructions
        \<and> (\<forall>i<length instructions.
              programId (vec ! i) = ix_programId (instructions ! i)
            \<and> accounts (vec ! i) = ix_keys (instructions ! i)
            \<and> data (vec ! i) = ix_data (instructions ! i))
        \<and> instruction_encode (coder governanceProgram) (insertTransaction 0 txIndex 0 vec)
            = Inr bytes"
    then show "\<exists>t' l. insertTransactionTx lib governanceProgram governanceKey proposalAddress
          proposalOwnerRecordKey txIndex instructions = (Inr t', l)"
      unfolding verbatim by (clarsimp simp: insertTransactionTx_Inr_iff)
  qed
  have returns2: ?returns2
  proof (rule iffI)
    assume "\<exists>txs' l. createProposalWithInstructionsTransactions lib governanceProgram realmKey
          governanceKey proposalName instructions councilVote_arg proposalSeed = (Inr txs', l)"
    then show "\<exists>r l1 t3 l3 pt b5 bytes vec.
          createProposalTx lib governanceProgram realmKey governanceKey proposalName
            councilVote_arg proposalSeed = (Inr r, l1)
        \<and> createProposalSignOffTx lib governanceProgram realmKey governanceKey
            (Key (res_proposalOwnerRecordKey r)) (Key (res_proposalAddress r)) = (Inr t3, l3)
        \<and> findProgramAddressSync lib
             (spec_proposal_transaction_seeds lib (res_proposalAddress r) 0 0)
             (GOVERNANCE_PROGRAM_ID lib) = Inr (pt, b5)
        \<and> length vec = length instructions
        \<and> (\<forall>i<length instructions.
              programId (vec ! i) = ix_programId (instructions ! i)
            \<and> accounts (vec ! i) = ix_keys (instructions ! i)
            \<and> data (vec ! i) = ix_data (instructions ! i))
        \<and> instruction_encode (coder governanceProgram) (insertTransaction 0 0 0 vec)
            = Inr bytes"
      unfolding verbatim
      by (clarsimp simp: createProposalWithInstructionsTransactions_Inr_iff
            createProposalTx_Inr_iff createProposalSignOffTx_Inr_iff new_PublicKey_Key)
  next
    assume "\<exists>r l1 t3 l3 pt b5 bytes vec.
          createProposalTx lib governanceProgram realmKey governanceKey proposalName
            councilVote_arg proposalSeed = (Inr r, l1)
        \<and> createProposalSignOffTx lib governanceProgram realmKey governanceKey
            (Key (res_proposalOwnerRecordKey r)) (Key (res_proposalAddress r)) = (Inr t3, l3)
        \<and> findProgramAddressSync lib
             (spec_proposal_transaction_seeds lib (res_proposalAddress r) 0 0)
             (GOVERNANCE_PROGRAM_ID lib) = Inr (pt, b5)
        \<and> length vec = length instructions
        \<and> (\<forall>i<length instructions.
              programId (vec ! i) = ix_programId (instructions ! i)
            \<and> accounts (vec ! i) = ix_keys (instructions ! i)
            \<and> data (vec ! i) = ix_data (instructions ! i))
        \<and> instruction_encode (coder governanceProgram) (insertTransaction 0 0 0 vec)
            = Inr bytes"
    then show "\<exists>txs' l. createProposalWithInstructionsTransactions lib governanceProgram
          realmKey governanceKey proposalName instructions councilVote_arg proposalSeed
          = (Inr txs', l)"
      unfolding verbatim
      by (clarsimp simp: createProposalWithInstructionsTransactions_Inr_iff
            createProposalTx_Inr_iff createProposalSignOffTx_Inr_iff new_PublicKey_Key)
  qed
  from fields single composite returns1 returns2 show ?thesis by blast
qed

theorem instruction_records_verbatim_witness:
  "\<exists>t log vec txs log' t1 t2 t3 vec'.
      insertTransactionTx demo_lib demo_program (Key (PublicKey [2])) (Key (PublicKey [20]))
        (Key (PublicKey [21])) 258 [demo_instruction, demo_instruction'] = (Inr t, log)
    \<and> tx_method t = insertTransaction 0 258 0 vec
    \<and> length vec = 2
    \<and> programId (vec ! 0) = PublicKey [30] \<and> data (vec ! 0) = [1, 2, 3]
    \<and> programId (vec ! 1) = PublicKey [40] \<and> data (vec ! 1) = [9]
    \<and> createProposalWithInstructionsTransactions demo_lib demo_program
        (Key (PublicKey [1])) (Key (PublicKey [2])) ''p'' [demo_instruction, demo_instruction']
        None (PublicKey [5]) = (Inr txs, log')
    \<and> txs = [t1, t2, t3]
    \<and> tx_method t2 = insertTransaction 0 0 0 vec'
    \<and> length vec' = 2
    \<and> programId (vec' ! 0) = PublicKey [30] \<and> data (vec' ! 0) = [1, 2, 3]
    \<and> programId (vec' ! 1) = PublicKey [40] \<and> data (vec' ! 1) = [9]
    \<and> accounts (vec' ! 1) = ix_keys demo_instruction'"
proof -
  obtain t log where run:
    "insertTransactionTx demo_lib demo_program (Key (PublicKey [2])) (Key (PublicKey [20]))
        (Key (PublicKey [21])) 258 [demo_instruction, demo_instruction'] = (Inr t, log)"
    using demo_insertTransactionTx_run2 by blast
  obtain txs log' where crun:
    "createProposalWithInstructionsTransactions demo_lib demo_program
        (Key (PublicKey [1])) (Key (PublicKey [2])) ''p'' [demo_instruction, demo_instruction']
        None (PublicKey [5]) = (Inr txs, log')"
    using demo_composite_run2 by blast
  note records = instruction_records_verbatim
      [of demo_instruction demo_lib demo_program "Key (PublicKey [2])" "Key (PublicKey [20])"
          "Key (PublicKey [21])" 258 "[demo_instruction, demo_instruction']" t log
          "Key (PublicKey [1])" "''p''" None "PublicKey [5]" txs log']
  note single = records [THEN conjunct2, THEN conjunct2, THEN conjunct2, THEN conjunct1,
      THEN mp, OF run]
  note composite = records [THEN conjunct2, THEN conjunct2, THEN conjunct2, THEN conjunct2,
      THEN conjunct1, THEN mp, OF crun]
  from single obtain vec where vec: "tx_method t = insertTransaction 0 258 0 vec"
      "length vec = length [demo_instruction, demo_instruction']"
      "\<forall>i<length [demo_instruction, demo_instruction'].
          programId (vec ! i) = ix_programId ([demo_instruction, demo_instruction'] ! i)
        \<and> accounts (vec ! i) = ix_keys ([demo_instruction, demo_instruction'] ! i)
        \<and> data (vec ! i) = ix_data ([demo_instruction, demo_instruction'] ! i)"
    by (elim exE conjE)
  from composite obtain t1 t2 t3 vec' where vec': "txs = [t1, t2, t3]"
      "tx_method t2 = insertTransaction 0 0 0 vec'"
      "length vec' = length [demo_instruction, demo_instruction']"
      "\<forall>i<length [demo_instruction, demo_instruction'].
          programId (vec' ! i) = ix_programId ([demo_instruction, demo_instruction'] ! i)
        \<and> accounts (vec' ! i) = ix_keys ([demo_instruction, demo_instruction'] ! i)
        \<and> data (vec' ! i) = ix_data ([demo_instruction, demo_instruction'] ! i)"
    by (elim exE conjE)
  from vec(3) have v: "programId (vec ! 0) = PublicKey [30] \<and> data (vec ! 0) = [1, 2, 3]
      \<and> programId (vec ! 1) = PublicKey [40] \<and> data (vec ! 1) = [9]"
    by (simp add: demo_instruction_def demo_instruction'_def less_Suc_eq numeral_2_eq_2
          all_conj_distrib)
  from vec'(4) have v': "programId (vec' ! 0) = PublicKey [30] \<and> data (vec' ! 0) = [1, 2, 3]
      \<and> programId (vec' ! 1) = PublicKey [40] \<and> data (vec' ! 1) = [9]
      \<and> accounts (vec' ! 1) = ix_keys demo_instruction'"
    by (simp add: demo_instruction_def demo_instruction'_def less_Suc_eq numeral_2_eq_2
          all_conj_distrib)
  from vec(2) vec'(3) have len: "length vec = 2" "length vec' = 2"
    by simp_all
  from run crun vec(1) vec'(1,2) len v v' show ?thesis
    by (intro exI [of _ t] exI [of _ log] exI [of _ vec] exI [of _ txs] exI [of _ log']
          exI [of _ t1] exI [of _ t2] exI [of _ t3] exI [of _ vec']) simp
qed

subsection \<open>Inputs the libraries reject\<close>

text \<open>
  C7, as the claim states it, fails: a txIndex that does not fit in two bytes makes
  \<open>insertTransactionTx\<close> fail locally. The builder has no check of its own, but
  \<^verbatim>\<open>new BN(txIndex).toArrayLike(Buffer, "le", 2)\<close> throws when the number needs more than
  two bytes.
\<close>

theorem txIndex_beyond_two_bytes_counterexample:
  "insertTransactionTx demo_lib demo_program (Key (PublicKey [2])) (Key (PublicKey [20]))
      (Key (PublicKey [21])) 65536 []
    = (Inl (Error ''byte array longer than desired length''), [])"
  by (simp add: insertTransactionTx_def Let_def and_then_lift new_PublicKey_Key
        BN_toArrayLike_le_0_1 BN_toArrayLike_le_2)

text \<open>
  C7, amended. The builders contain no validation of their own, and they do not check
  that txIndex is unique or increasing; but they fail locally when a library call they
  make rejects its input. \<open>insertTransactionTx\<close> returns exactly when the proposal address
  parses, the magnitude of txIndex is below 65536, the derivation succeeds, the governance
  and owner-record addresses parse, and the coder accepts the arguments. For every txIndex
  whose magnitude does not fit in two bytes it fails before any address is derived or
  transaction built, whether or not the proposal address parses.
\<close>

theorem insertTransactionTx_local_failure:
  "((\<exists>t. fst (insertTransactionTx lib governanceProgram governanceKey proposalAddress
              proposalOwnerRecordKey txIndex instructions) = Inr t)
    \<longleftrightarrow>
      (\<exists>proposalPk governancePk ownerPk address bump bytes.
          new_PublicKey lib proposalAddress = Inr proposalPk
        \<and> \<bar>txIndex\<bar> < 65536
        \<and> findProgramAddressSync lib
             (spec_proposal_transaction_seeds lib proposalPk 0 (nat \<bar>txIndex\<bar>))
             (GOVERNANCE_PROGRAM_ID lib) = Inr (address, bump)
        \<and> new_PublicKey lib governanceKey = Inr governancePk
        \<and> new_PublicKey lib proposalOwnerRecordKey = Inr ownerPk
        \<and> instruction_encode (coder governanceProgram)
             (insertTransaction 0 txIndex 0
                (map getInstructionDataFromInstruction instructions)) = Inr bytes))
   \<and> (new_PublicKey lib proposalAddress = Inr pk \<and> 65536 \<le> \<bar>txIndex\<bar> \<and> \<bar>txIndex\<bar> < 2 ^ 53
      \<longrightarrow> insertTransactionTx lib governanceProgram governanceKey proposalAddress
            proposalOwnerRecordKey txIndex instructions
          = (Inl (Error ''byte array longer than desired length''), []))
   \<and> (new_PublicKey lib proposalAddress = Inr pk \<and> 2 ^ 53 \<le> \<bar>txIndex\<bar>
      \<longrightarrow> insertTransactionTx lib governanceProgram governanceKey proposalAddress
            proposalOwnerRecordKey txIndex instructions
          = (Inl (Error ''Assertion failed''), []))
   \<and> (65536 \<le> \<bar>txIndex\<bar>
      \<longrightarrow> (\<exists>thrown. insertTransactionTx lib governanceProgram governanceKey proposalAddress
            proposalOwnerRecordKey txIndex instructions = (Inl thrown, [])))"
  (is "?returns \<and> ?too_wide \<and> ?unsafe \<and> ?nothing_done")
proof (intro conjI)
  show ?returns
    by (simp add: fst_Inr_iff insertTransactionTx_Inr_iff) blast
  show ?too_wide
    unfolding insertTransactionTx_def Let_def
    by (simp add: and_then_lift BN_toArrayLike_le_0_1 BN_toArrayLike_le_2)
  show ?unsafe
    unfolding insertTransactionTx_def Let_def
    by (simp add: and_then_lift BN_toArrayLike_le_0_1 BN_toArrayLike_le_2)
  show ?nothing_done
    unfolding insertTransactionTx_def Let_def
    by (cases "new_PublicKey lib proposalAddress")
       (simp_all add: and_then_lift BN_toArrayLike_le_0_1 BN_toArrayLike_le_2)
qed

theorem insertTransactionTx_local_failure_witness:
  "(\<exists>t. fst (insertTransactionTx demo_lib demo_program (Key (PublicKey [2]))
      (Key (PublicKey [20])) (Key (PublicKey [21])) 258 [demo_instruction]) = Inr t)
   \<and> insertTransactionTx demo_lib demo_program (Key (PublicKey [2]))
      (Key (PublicKey [20])) (Key (PublicKey [21])) 70000 [demo_instruction]
      = (Inl (Error ''byte array longer than desired length''), [])"
proof -
  have "\<exists>proposalPk governancePk ownerPk address bump bytes.
          new_PublicKey demo_lib (Key (PublicKey [20])) = Inr proposalPk
        \<and> \<bar>258::int\<bar> < 65536
        \<and> findProgramAddressSync demo_lib
             (spec_proposal_transaction_seeds demo_lib proposalPk 0 (nat \<bar>258\<bar>))
             (GOVERNANCE_PROGRAM_ID demo_lib) = Inr (address, bump)
        \<and> new_PublicKey demo_lib (Key (PublicKey [2])) = Inr governancePk
        \<and> new_PublicKey demo_lib (Key (PublicKey [21])) = Inr ownerPk
        \<and> instruction_encode (coder demo_program)
             (insertTransaction 0 258 0
                (map getInstructionDataFromInstruction [demo_instruction])) = Inr bytes"
    by (simp add: new_PublicKey_Key demo_defs)
  moreover have "new_PublicKey demo_lib (Key (PublicKey [20])) = Inr (PublicKey [20])
      \<and> 65536 \<le> \<bar>70000::int\<bar> \<and> \<bar>70000::int\<bar> < 2 ^ 53"
    by (simp add: new_PublicKey_Key)
  ultimately show ?thesis
    using insertTransactionTx_local_failure
      [of demo_lib demo_program "Key (PublicKey [2])" "Key (PublicKey [20])"
          "Key (PublicKey [21])" 258 "[demo_instruction]" "PublicKey [20]"]
      insertTransactionTx_local_failure
      [of demo_lib demo_program "Key (PublicKey [2])" "Key (PublicKey [20])"
          "Key (PublicKey [21])" 70000 "[demo_instruction]" "PublicKey [20]"]
    by blast
qed

subsection \<open>The fixed parameters of \<^verbatim>\<open>createProposalTx\<close>\<close>

text \<open>
  C8. Whenever \<open>createProposalTx\<close> returns, the one transaction it built, and returns,
  invokes \<open>createProposal\<close> with the given name, the empty description, the single-choice
  vote type, the one option "Approve", the deny option enabled and the proposal seed; and
  the proposal address and the owner record returned next to it are the results of the
  first two derivations, and the addresses the transaction names for these two accounts.
\<close>

theorem createProposalTx_fixed_parameters:
  assumes "createProposalTx lib governanceProgram realmKey governanceKey proposalName
             councilVote_arg proposalSeed = (Inr r, log)"
  shows "tx_method (res_tx r) =
           createProposal proposalName '''' ''singleChoice'' [''Approve''] True proposalSeed
    \<and> transactions_built log = [res_tx r]
    \<and> account_of (res_tx r) ''proposalAddress'' = Some (res_proposalAddress r)
    \<and> account_of (res_tx r) ''proposalOwnerRecord'' = Some (res_proposalOwnerRecordKey r)
    \<and> (\<exists>seeds1 seeds2 rest b1 b2.
          derivations log
            = (seeds1, GOVERNANCE_PROGRAM_ID lib) # (seeds2, GOVERNANCE_PROGRAM_ID lib) # rest
        \<and> findProgramAddressSync lib seeds1 (GOVERNANCE_PROGRAM_ID lib)
            = Inr (res_proposalAddress r, b1)
        \<and> findProgramAddressSync lib seeds2 (GOVERNANCE_PROGRAM_ID lib)
            = Inr (res_proposalOwnerRecordKey r, b2))"
  using assms
  by (clarsimp simp: createProposalTx_Inr_iff account_of_def)

theorem createProposalTx_fixed_parameters_witness:
  "\<exists>r log. createProposalTx demo_lib demo_program (Key (PublicKey [1])) (Key (PublicKey [2]))
      ''p'' None (PublicKey [5]) = (Inr r, log)
    \<and> tx_method (res_tx r) =
        createProposal ''p'' '''' ''singleChoice'' [''Approve''] True (PublicKey [5])"
proof -
  obtain r log where run:
    "createProposalTx demo_lib demo_program (Key (PublicKey [1])) (Key (PublicKey [2]))
      ''p'' None (PublicKey [5]) = (Inr r, log)"
    using demo_createProposalTx_run by blast
  from createProposalTx_fixed_parameters [OF run] run show ?thesis by blast
qed

subsection \<open>The program handle\<close>

text \<open>
  C9. For every wallet and connection, \<open>createSplGovernanceProgram\<close> returns a handle whose
  provider has commitment and preflight commitment "confirmed" and does not skip
  preflight, whether or not a program identifier is given; the handle is bound to the given
  wallet and connection; its program identifier is the constant \<open>GOVERNANCE_PROGRAM_ID\<close>
  when the argument is omitted, and the argument when it is given.
\<close>

theorem createSplGovernanceProgram_handle:
  "commitment (opts (provider (createSplGovernanceProgram lib w c pid))) = ''confirmed''
   \<and> preflightCommitment (opts (provider (createSplGovernanceProgram lib w c pid))) = ''confirmed''
   \<and> skipPreflight (opts (provider (createSplGovernanceProgram lib w c pid))) = False
   \<and> wallet (provider (createSplGovernanceProgram lib w c pid)) = w
   \<and> connection (provider (createSplGovernanceProgram lib w c pid)) = c
   \<and> program_programId (createSplGovernanceProgram lib w c None) = GOVERNANCE_PROGRAM_ID lib
   \<and> program_programId (createSplGovernanceProgram lib w c (Some p)) = p"
  by (simp add: createSplGovernanceProgram_def)

subsection \<open>The program identifier of the derivations\<close>

text \<open>
  C10. Every address derivation that \<open>createProposalTx\<close>, \<open>insertTransactionTx\<close> and
  \<open>createProposalWithInstructionsTransactions\<close> make, in runs that return and in runs that
  fail, is made under the constant \<open>GOVERNANCE_PROGRAM_ID\<close>; and the derivations do not
  depend on the program identifier of the handle: a handle with any other identifier
  leads to the same derivations.
\<close>

theorem derivations_use_fixed_program_id:
  "derives_only_under (GOVERNANCE_PROGRAM_ID lib)
     (snd (createProposalTx lib gp realmKey governanceKey proposalName councilVote_arg
        proposalSeed))
   \<and> derives_only_under (GOVERNANCE_PROGRAM_ID lib)
     (snd (insertTransactionTx lib gp governanceKey proposalAddress proposalOwnerRecordKey
        txIndex instructions))
   \<and> derives_only_under (GOVERNANCE_PROGRAM_ID lib)
     (snd (createProposalWithInstructionsTransactions lib gp realmKey governanceKey
        proposalName instructions councilVote_arg proposalSeed))
   \<and> derivations (snd (createProposalTx lib (gp\<lparr>program_programId := p\<rparr>) realmKey
        governanceKey proposalName councilVote_arg proposalSeed))
      = derivations (snd (createProposalTx lib gp realmKey governanceKey proposalName
        councilVote_arg proposalSeed))
   \<and> derivations (snd (insertTransactionTx lib (gp\<lparr>program_programId := p\<rparr>) governanceKey
        proposalAddress proposalOwnerRecordKey txIndex instructions))
      = derivations (snd (insertTransactionTx lib gp governanceKey proposalAddress
        proposalOwnerRecordKey txIndex instructions))
   \<and> derivations (snd (createProposalWithInstructionsTransactions lib
        (gp\<lparr>program_programId := p\<rparr>) realmKey governanceKey proposalName instructions
        councilVote_arg proposalSeed))
      = derivations (snd (createProposalWithInstructionsTransactions lib gp realmKey
        governanceKey proposalName instructions councilVote_arg proposalSeed))"
  by (simp only: createProposalTx_derives_under insertTransactionTx_derives_under
        composite_derives_under createProposalTx_derivations_programId
        insertTransactionTx_derivations_programId composite_derivations_programId simp_thms)

theorem derivations_use_fixed_program_id_witness:
  "program_programId
      (createSplGovernanceProgram demo_lib demo_wallet demo_connection (Some (PublicKey [99])))
     = PublicKey [99]
   \<and> length (derivations (snd (createProposalTx demo_lib
        (createSplGovernanceProgram demo_lib demo_wallet demo_connection (Some (PublicKey [99])))
        (Key (PublicKey [1])) (Key (PublicKey [2])) ''p'' None (PublicKey [5])))) = 4
   \<and> derives_only_under (PublicKey [7]) (snd (createProposalTx demo_lib
        (createSplGovernanceProgram demo_lib demo_wallet demo_connection (Some (PublicKey [99])))
        (Key (PublicKey [1])) (Key (PublicKey [2])) ''p'' None (PublicKey [5])))"
proof -
  have "GOVERNANCE_PROGRAM_ID demo_lib = PublicKey [7]"
    by (simp add: demo_lib_def)
  moreover have "length (derivations (snd (createProposalTx demo_lib
        (createSplGovernanceProgram demo_lib demo_wallet demo_connection (Some (PublicKey [99])))
        (Key (PublicKey [1])) (Key (PublicKey [2])) ''p'' None (PublicKey [5])))) = 4"
    by (simp add: createProposalTx_def demo_defs run_simps new_PublicKey_def Let_def)
  moreover have "program_programId
      (createSplGovernanceProgram demo_lib demo_wallet demo_connection (Some (PublicKey [99])))
     = PublicKey [99]"
    by (simp add: createSplGovernanceProgram_def)
  ultimately show ?thesis
    using derivations_use_fixed_program_id
      [of demo_lib
          "createSplGovernanceProgram demo_lib demo_wallet demo_connection (Some (PublicKey [99]))"
          "Key (PublicKey [1])" "Key (PublicKey [2])" "''p''" None "PublicKey [5]"]
    by simp
qed

end
